theory Spec2Isabelle
  imports Complex_Main
begin

section \<open>JavaScript values\<close>

text \<open>
  Request bodies, upstream payloads and the \<open>data\<close> column of \<open>HealthData\<close> are JSON-like
  JavaScript values. \<open>JUndefined\<close> is the value of a property that is not there;
  numbers are the rationals (every finite double is one; no arithmetic is done on them).
\<close>

datatype jsval =
    JUndefined
  | JNull
  | JBool bool
  | JNum rat
  | JStr string
  | JArr "jsval list"
  | JObj "(string \<times> jsval) list"

text \<open>What \<open>if (v)\<close> tests.\<close>

fun truthy :: "jsval \<Rightarrow> bool" where
  "truthy JUndefined = False"
| "truthy JNull = False"
| "truthy (JBool b) = b"
| "truthy (JNum r) = (r \<noteq> 0)"
| "truthy (JStr s) = (s \<noteq> [])"
| "truthy (JArr xs) = True"
| "truthy (JObj kvs) = True"

fun nullish :: "jsval \<Rightarrow> bool" where
  "nullish JUndefined = True"
| "nullish JNull = True"
| "nullish v = False"

text \<open>
  \<open>v.k\<close> for a \<open>v\<close> that is neither \<open>null\<close> nor \<open>undefined\<close>, and a \<open>k\<close> that is one of
  the data keys the handlers read (an own property of an object; primitives and arrays have
  none of them).
\<close>

fun js_get :: "jsval \<Rightarrow> string \<Rightarrow> jsval" where
  "js_get (JObj kvs) k = (case map_of kvs k of None \<Rightarrow> JUndefined | Some v \<Rightarrow> v)"
| "js_get v k = JUndefined"

text \<open>\<open>v?.k\<close>\<close>

definition js_get_opt :: "jsval \<Rightarrow> string \<Rightarrow> jsval" where
  "js_get_opt v k = (if nullish v then JUndefined else js_get v k)"

text \<open>A template literal's \<open>${x}\<close> for a query parameter that is a string or missing.\<close>

fun interp :: "string option \<Rightarrow> string" where
  "interp None = ''undefined''"
| "interp (Some s) = s"

section \<open>The upstream client and the thrown errors\<close>

text \<open>\<open>rookApi.get(url)\<close> and \<open>rookApi.post(url, data)\<close>.\<close>

datatype request = Get string | Post string jsval

text \<open>
  The awaited call either resolves to a response (\<open>response.status\<close>, \<open>response.data\<close>) or
  throws an error (\<open>error.response?.status\<close>, \<open>error.message\<close>); a transport failure has no
  response.
\<close>

datatype upstream_result = Resolved nat jsval | Rejected "nat option" string

text \<open>A caught error: \<open>error.response?.status\<close> and \<open>error.message\<close>.\<close>

datatype js_error = JsError "nat option" string

text \<open>Errors raised by the runtime and by the store client; their wording is theirs.\<close>

datatype fault = TypeError | StoreValidation

record response =
  status :: nat
  body :: "jsval option"

text \<open>The calls a handler issues, in order.\<close>

datatype event = RookCall request | StoreRead | StoreWrite

text \<open>
  What a handler's run depends on outside its arguments and the store's rows: the answers
  of the upstream client, whether a store call of this run fails on the store's side
  (the message it throws), the clock, and the wording of runtime errors.
\<close>

record env =
  upstream :: "request \<Rightarrow> upstream_result"
  read_fault :: "string option"
  write_fault :: "string option"
  now :: nat
  fault_text :: "fault \<Rightarrow> string"

text \<open>\<open>error.response?.status || 500\<close>\<close>

fun status_or_500 :: "nat option \<Rightarrow> nat" where
  "status_or_500 None = 500"
| "status_or_500 (Some s) = (if s = 0 then 500 else s)"

text \<open>\<open>res.status(error.response?.status || 500).json({ error: error.message })\<close>\<close>

fun error_response :: "js_error \<Rightarrow> response" where
  "error_response (JsError st m) =
     \<lparr>status = status_or_500 st, body = Some (JObj [(''error'', JStr m)])\<rparr>"

fun handleNoContent :: "js_error \<Rightarrow> response" where
  "handleNoContent (JsError st m) =
     (if st = Some 204 then \<lparr>status = 204, body = None\<rparr>
      else error_response (JsError st m))"

text \<open>\<open>res.json(v)\<close> and \<open>res.status(s).json(v)\<close>\<close>

definition res_json :: "jsval \<Rightarrow> response" where
  "res_json v = \<lparr>status = 200, body = Some v\<rparr>"

definition res_status_json :: "nat \<Rightarrow> jsval \<Rightarrow> response" where
  "res_status_json s v = \<lparr>status = s, body = Some v\<rparr>"

section \<open>The store\<close>

text \<open>The two tables of the migration, a row a record, \<open>NULL\<close> as \<open>None\<close>.\<close>

record user_row =
  user_id :: string
  date_of_birth :: "string option"
  height_cm :: "int option"
  weight_kg :: "rat option"
  bmi :: "rat option"
  sex :: "string option"
  time_zone :: "string option"
  offset :: "string option"

record health_row =
  hd_id :: nat
  hd_user_id :: string
  hd_data_type :: string
  hd_date :: string
  hd_data :: jsval
  hd_fetched_at :: nat

text \<open>The store: both tables, and the next value of the \<open>SERIAL\<close> sequence of \<open>HealthData.id\<close>.\<close>

record db =
  user_table :: "user_row list"
  healthData :: "health_row list"
  healthData_seq :: nat

text \<open>
  Modelled from the spec: the store client (Prisma) that the handlers call is a library,
  not under src/; the handlers themselves are translated from the source. The client's
  four operations follow the contracts of section 6 of the specification (\<open>find\<close>,
  field-wise \<open>upsert\<close>, \<open>findFirst\<close>, \<open>create\<close>) and the client's reading of
  arguments: a filter or field whose value is \<open>undefined\<close> is left out, \<open>null\<close> is a
  value, and a value of the wrong type for its column or a missing required field is
  refused before anything is written. Rows are kept in insertion order, and \<open>findFirst\<close>
  returns the first match in that order.
\<close>

fun where_eq :: "string option \<Rightarrow> string \<Rightarrow> bool" where
  "where_eq None v = True"
| "where_eq (Some s) v = (s = v)"

text \<open>\<open>where: { user_id, data_type, date }\<close>\<close>

definition snapshot_where :: "string option \<Rightarrow> string \<Rightarrow> string option \<Rightarrow> health_row \<Rightarrow> bool" where
  "snapshot_where uid dt date r =
     (where_eq uid (hd_user_id r) \<and> hd_data_type r = dt \<and> where_eq date (hd_date r))"

definition healthData_findFirst ::
  "env \<Rightarrow> db \<Rightarrow> string option \<Rightarrow> string \<Rightarrow> string option \<Rightarrow> js_error + health_row option" where
  "healthData_findFirst e d uid dt date =
     (case read_fault e of
        Some m \<Rightarrow> Inl (JsError None m)
      | None \<Rightarrow> Inr (find (snapshot_where uid dt date) (healthData d)))"

definition healthData_create ::
  "env \<Rightarrow> db \<Rightarrow> string option \<Rightarrow> string \<Rightarrow> string option \<Rightarrow> jsval \<Rightarrow> js_error + db" where
  "healthData_create e d uid dt date v =
     (case (uid, date) of
        (Some u, Some dd) \<Rightarrow>
          (case write_fault e of
             Some m \<Rightarrow> Inl (JsError None m)
           | None \<Rightarrow>
               Inr (d\<lparr>healthData := healthData d @
                        [\<lparr>hd_id = healthData_seq d, hd_user_id = u, hd_data_type = dt,
                          hd_date = dd, hd_data = v, hd_fetched_at = now e\<rparr>],
                      healthData_seq := Suc (healthData_seq d)\<rparr>))
      | _ \<Rightarrow> Inl (JsError None (fault_text e StoreValidation)))"

section \<open>The health-data routes\<close>

text \<open>
  The five routes \<open>/health/physical/summary\<close>, \<open>/health/physical/events/:type\<close>,
  \<open>/health/sleep/summary\<close>, \<open>/health/body/summary\<close> and \<open>/health/body/events/:type\<close> have
  the same body up to the \<open>data_type\<close> tag and the resource path.
\<close>

datatype shape =
    PhysicalSummary
  | PhysicalEvents string
  | SleepSummary
  | BodySummary
  | BodyEvents string

fun data_type_tag :: "shape \<Rightarrow> string" where
  "data_type_tag PhysicalSummary = ''physical_summary''"
| "data_type_tag (PhysicalEvents t) = ''physical_'' @ t"
| "data_type_tag SleepSummary = ''sleep_summary''"
| "data_type_tag BodySummary = ''body_summary''"
| "data_type_tag (BodyEvents t) = ''body_'' @ t"

fun resource_path :: "shape \<Rightarrow> string" where
  "resource_path PhysicalSummary = ''/v2/processed_data/physical_health/summary''"
| "resource_path (PhysicalEvents t) = ''/v2/processed_data/physical_health/events/'' @ t"
| "resource_path SleepSummary = ''/v2/processed_data/sleep_health/summary''"
| "resource_path BodySummary = ''/v2/processed_data/body_health/summary''"
| "resource_path (BodyEvents t) = ''/v2/processed_data/body_health/events/'' @ t"

definition snapshot_request :: "shape \<Rightarrow> string option \<Rightarrow> string option \<Rightarrow> request" where
  "snapshot_request sh uid date =
     Get (resource_path sh @ ''?user_id='' @ interp uid @ ''&date='' @ interp date)"

text \<open>
  A handler's run: the response sent, the store afterwards, the calls issued.
  \<open>uid\<close> and \<open>date\<close> are \<open>req.query.user_id\<close> and \<open>req.query.date\<close>.
\<close>

definition getSnapshot ::
  "env \<Rightarrow> shape \<Rightarrow> string option \<Rightarrow> string option \<Rightarrow> db \<Rightarrow> response \<times> db \<times> event list" where
  "getSnapshot e sh uid date d =
     (case healthData_findFirst e d uid (data_type_tag sh) date of
        Inl err \<Rightarrow> (handleNoContent err, d, [StoreRead])
      | Inr (Some cached) \<Rightarrow> (res_json (hd_data cached), d, [StoreRead])
      | Inr None \<Rightarrow>
          (case upstream e (snapshot_request sh uid date) of
             Rejected st m \<Rightarrow>
               (handleNoContent (JsError st m), d,
                [StoreRead, RookCall (snapshot_request sh uid date)])
           | Resolved s v \<Rightarrow>
               (if truthy v then
                  (case healthData_create e d uid (data_type_tag sh) date v of
                     Inl err \<Rightarrow>
                       (handleNoContent err, d,
                        [StoreRead, RookCall (snapshot_request sh uid date), StoreWrite])
                   | Inr d' \<Rightarrow>
                       (res_json v, d',
                        [StoreRead, RookCall (snapshot_request sh uid date), StoreWrite]))
                else
                  (res_json v, d, [StoreRead, RookCall (snapshot_request sh uid date)]))))"

section \<open>The user table\<close>

text \<open>
  How the store client reads one field of an \<open>update\<close> or \<open>create\<close> argument:
  \<open>undefined\<close> leaves the column out, \<open>null\<close> and a value of the column's type are
  written, anything else is refused. The column types are those of the migration:
  \<open>TEXT\<close>, \<open>INTEGER\<close> (32 bits) and \<open>DOUBLE PRECISION\<close>.
\<close>

datatype 'a arg = Skip | Put "'a option" | Bad

fun text_arg :: "jsval \<Rightarrow> string arg" where
  "text_arg JUndefined = Skip"
| "text_arg JNull = Put None"
| "text_arg (JStr s) = Put (Some s)"
| "text_arg v = Bad"

fun int_arg :: "jsval \<Rightarrow> int arg" where
  "int_arg JUndefined = Skip"
| "int_arg JNull = Put None"
| "int_arg (JNum r) =
     (if of_int \<lfloor>r\<rfloor> = r \<and> - 2147483648 \<le> \<lfloor>r\<rfloor> \<and> \<lfloor>r\<rfloor> \<le> 2147483647
      then Put (Some \<lfloor>r\<rfloor>) else Bad)"
| "int_arg v = Bad"

fun float_arg :: "jsval \<Rightarrow> rat arg" where
  "float_arg JUndefined = Skip"
| "float_arg JNull = Put None"
| "float_arg (JNum r) = Put (Some r)"
| "float_arg v = Bad"

fun is_bad :: "'a arg \<Rightarrow> bool" where
  "is_bad Bad = True"
| "is_bad a = False"

fun put :: "'a arg \<Rightarrow> 'a option \<Rightarrow> 'a option" where
  "put (Put x) old = x"
| "put a old = old"

definition args_ok :: "jsval \<Rightarrow> bool" where
  "args_ok a =
     (\<not> is_bad (text_arg (js_get a ''date_of_birth'')) \<and>
      \<not> is_bad (int_arg (js_get a ''height_cm'')) \<and>
      \<not> is_bad (float_arg (js_get a ''weight_kg'')) \<and>
      \<not> is_bad (float_arg (js_get a ''bmi'')) \<and>
      \<not> is_bad (text_arg (js_get a ''sex'')) \<and>
      \<not> is_bad (text_arg (js_get a ''time_zone'')) \<and>
      \<not> is_bad (text_arg (js_get a ''offset'')))"

definition apply_args :: "jsval \<Rightarrow> user_row \<Rightarrow> user_row" where
  "apply_args a r =
     r\<lparr>date_of_birth := put (text_arg (js_get a ''date_of_birth'')) (date_of_birth r),
       height_cm := put (int_arg (js_get a ''height_cm'')) (height_cm r),
       weight_kg := put (float_arg (js_get a ''weight_kg'')) (weight_kg r),
       bmi := put (float_arg (js_get a ''bmi'')) (bmi r),
       sex := put (text_arg (js_get a ''sex'')) (sex r),
       time_zone := put (text_arg (js_get a ''time_zone'')) (time_zone r),
       offset := put (text_arg (js_get a ''offset'')) (offset r)\<rparr>"

definition blank_row :: "string \<Rightarrow> user_row" where
  "blank_row u =
     \<lparr>user_id = u, date_of_birth = None, height_cm = None, weight_kg = None, bmi = None,
      sex = None, time_zone = None, offset = None\<rparr>"

text \<open>The row of the table with a given primary key.\<close>

definition find_user :: "string \<Rightarrow> db \<Rightarrow> user_row option" where
  "find_user u d = find (\<lambda>r. user_id r = u) (user_table d)"

definition user_findUnique :: "env \<Rightarrow> db \<Rightarrow> string \<Rightarrow> js_error + user_row option" where
  "user_findUnique e d u =
     (case read_fault e of
        Some m \<Rightarrow> Inl (JsError None m)
      | None \<Rightarrow> Inr (find_user u d))"

text \<open>
  \<open>prisma.user.upsert({ where: { user_id: w }, update: upd, create: crt })\<close>: the row
  with that \<open>user_id\<close> is updated field by field, or a row is created from \<open>crt\<close>.
\<close>

definition user_upsert :: "env \<Rightarrow> db \<Rightarrow> jsval \<Rightarrow> jsval \<Rightarrow> jsval \<Rightarrow> js_error + db" where
  "user_upsert e d w upd crt =
     (case (w, js_get crt ''user_id'') of
        (JStr u, JStr u') \<Rightarrow>
          (if args_ok upd \<and> args_ok crt then
             (case write_fault e of
                Some m \<Rightarrow> Inl (JsError None m)
              | None \<Rightarrow>
                  (case find_user u d of
                     Some old \<Rightarrow>
                       Inr (d\<lparr>user_table :=
                              map (\<lambda>r. if user_id r = u then apply_args upd r else r)
                                (user_table d)\<rparr>)
                   | None \<Rightarrow>
                       Inr (d\<lparr>user_table := user_table d @ [apply_args crt (blank_row u')]\<rparr>)))
           else Inl (JsError None (fault_text e StoreValidation)))
      | _ \<Rightarrow> Inl (JsError None (fault_text e StoreValidation)))"

text \<open>The row as the JSON object \<open>res.json\<close> sends.\<close>

fun json_opt :: "('a \<Rightarrow> jsval) \<Rightarrow> 'a option \<Rightarrow> jsval" where
  "json_opt f None = JNull"
| "json_opt f (Some x) = f x"

definition json_of_user :: "user_row \<Rightarrow> jsval" where
  "json_of_user r =
     JObj [(''user_id'', JStr (user_id r)),
           (''date_of_birth'', json_opt JStr (date_of_birth r)),
           (''height_cm'', json_opt (\<lambda>i. JNum (of_int i)) (height_cm r)),
           (''weight_kg'', json_opt JNum (weight_kg r)),
           (''bmi'', json_opt JNum (bmi r)),
           (''sex'', json_opt JStr (sex r)),
           (''time_zone'', json_opt JStr (time_zone r)),
           (''offset'', json_opt JStr (offset r))]"

section \<open>Validation of \<open>POST /users/info\<close>\<close>

text \<open>
  \<open>userSchema\<close> is built from the validation library (Joi), which is not under src/. Its
  rules are modelled as the schema names them; two of the library's own notions are
  parameters: which strings are ISO dates, and which values \<open>Joi.number()\<close> takes as a
  number (with the number it takes them as). So is the wording of its messages.
\<close>

datatype rule =
    Required | NotString | EmptyString | NotIsoDate | PatternMismatch
  | NotNumber | NotInteger | NotOneOf | UnknownKey

datatype verr = Verr string rule

record joi =
  isoDate :: "string \<Rightarrow> bool"
  to_number :: "jsval \<Rightarrow> rat option"
  message_of :: "verr \<Rightarrow> string"

text \<open>\<open>/^[a-zA-Z0-9-]{1,50}$/\<close>\<close>

definition id_char :: "char \<Rightarrow> bool" where
  "id_char c =
     (c \<in> set (''abcdefghijklmnopqrstuvwxyz'' @ ''ABCDEFGHIJKLMNOPQRSTUVWXYZ'' @
               ''0123456789'' @ ''-''))"

definition user_id_pattern :: "string \<Rightarrow> bool" where
  "user_id_pattern s = (1 \<le> length s \<and> length s \<le> 50 \<and> list_all id_char s)"

text \<open>\<open>/^\d{4}-\d{2}-\d{2}$/\<close>\<close>

definition digit :: "char \<Rightarrow> bool" where
  "digit c = (c \<in> set ''0123456789'')"

fun date_pattern :: "string \<Rightarrow> bool" where
  "date_pattern [y1, y2, y3, y4, h1, m1, m2, h2, d1, d2] =
     (list_all digit [y1, y2, y3, y4, m1, m2, d1, d2] \<and> h1 = CHR ''-'' \<and> h2 = CHR ''-'')"
| "date_pattern s = False"

text \<open>\<open>Joi.string()\<close> followed by a test of the string; \<open>undefined\<close> is handled by the caller.\<close>

fun joi_string :: "(string \<Rightarrow> rule option) \<Rightarrow> jsval \<Rightarrow> rule option" where
  "joi_string test (JStr s) = (if s = [] then Some EmptyString else test s)"
| "joi_string test v = Some NotString"

definition joi_number :: "joi \<Rightarrow> bool \<Rightarrow> jsval \<Rightarrow> rule option" where
  "joi_number j integer v =
     (case to_number j v of
        None \<Rightarrow> Some NotNumber
      | Some r \<Rightarrow> if integer \<and> of_int \<lfloor>r\<rfloor> \<noteq> r then Some NotInteger else None)"

fun joi_valid :: "jsval list \<Rightarrow> jsval \<Rightarrow> rule option" where
  "joi_valid allowed v = (if v \<in> set allowed then None else Some NotOneOf)"

text \<open>A key of the schema: \<open>.required()\<close> or optional, then its rule when the key is there.\<close>

definition joi_key :: "bool \<Rightarrow> (jsval \<Rightarrow> rule option) \<Rightarrow> jsval \<Rightarrow> rule option" where
  "joi_key required check v =
     (if v = JUndefined then (if required then Some Required else None) else check v)"

fun first_failure :: "(string \<times> rule option) list \<Rightarrow> verr option" where
  "first_failure [] = None"
| "first_failure ((k, None) # rest) = first_failure rest"
| "first_failure ((k, Some r) # rest) = Some (Verr k r)"

definition schema_keys :: "string list" where
  "schema_keys =
     [''datetime'', ''user_id'', ''date_of_birth_string'', ''height_cm_int'',
      ''weight_kg_float'', ''bmi_float'', ''sex_string'']"

text \<open>
  \<open>userSchema.validate(req.body)\<close>: the first failure (\<open>error.details[0]\<close>), or none.
  \<open>b\<close> holds the properties of \<open>req.body\<close>; a key the schema does not name is refused.
\<close>

definition userSchema_validate :: "joi \<Rightarrow> (string \<times> jsval) list \<Rightarrow> verr option" where
  "userSchema_validate j b =
     (case first_failure
        [(''datetime'',
            joi_key True (joi_string (\<lambda>s. if isoDate j s then None else Some NotIsoDate))
              (js_get (JObj b) ''datetime'')),
         (''user_id'',
            joi_key True (joi_string (\<lambda>s. if user_id_pattern s then None else Some PatternMismatch))
              (js_get (JObj b) ''user_id'')),
         (''date_of_birth_string'',
            joi_key False (joi_string (\<lambda>s. if date_pattern s then None else Some PatternMismatch))
              (js_get (JObj b) ''date_of_birth_string'')),
         (''height_cm_int'', joi_key False (joi_number j True) (js_get (JObj b) ''height_cm_int'')),
         (''weight_kg_float'', joi_key False (joi_number j False) (js_get (JObj b) ''weight_kg_float'')),
         (''bmi_float'', joi_key False (joi_number j False) (js_get (JObj b) ''bmi_float'')),
         (''sex_string'',
            joi_key False (joi_valid [JStr ''female'', JStr ''male''])
              (js_get (JObj b) ''sex_string''))]
      of
        Some err \<Rightarrow> Some err
      | None \<Rightarrow>
          (case find (\<lambda>k. k \<notin> set schema_keys) (map fst b) of
             Some k \<Rightarrow> Some (Verr k UnknownKey)
           | None \<Rightarrow> None))"

section \<open>The user routes\<close>

definition profile_args :: "(string \<times> jsval) list \<Rightarrow> (string \<times> jsval) list" where
  "profile_args b =
     [(''date_of_birth'', js_get (JObj b) ''date_of_birth_string''),
      (''height_cm'', js_get (JObj b) ''height_cm_int''),
      (''weight_kg'', js_get (JObj b) ''weight_kg_float''),
      (''bmi'', js_get (JObj b) ''bmi_float''),
      (''sex'', js_get (JObj b) ''sex_string'')]"

text \<open>\<open>POST /users/info\<close>: the validating middleware, then the handler.\<close>

definition submitProfile ::
  "env \<Rightarrow> joi \<Rightarrow> (string \<times> jsval) list \<Rightarrow> db \<Rightarrow> response \<times> db \<times> event list" where
  "submitProfile e j b d =
     (case userSchema_validate j b of
        Some err \<Rightarrow> (res_status_json 422 (JObj [(''error'', JStr (message_of j err))]), d, [])
      | None \<Rightarrow>
          (case upstream e (Post ''/api/v2/user-information'' (JObj b)) of
             Rejected st m \<Rightarrow>
               (error_response (JsError st m), d,
                [RookCall (Post ''/api/v2/user-information'' (JObj b))])
           | Resolved s v \<Rightarrow>
               (case user_upsert e d (js_get (JObj b) ''user_id'')
                       (JObj (profile_args b))
                       (JObj ((''user_id'', js_get (JObj b) ''user_id'') # profile_args b)) of
                  Inl err \<Rightarrow>
                    (error_response err, d,
                     [RookCall (Post ''/api/v2/user-information'' (JObj b)), StoreWrite])
                | Inr d' \<Rightarrow>
                    (res_status_json s v, d',
                     [RookCall (Post ''/api/v2/user-information'' (JObj b)), StoreWrite]))))"

text \<open>\<open>POST /users/:user_id/timezone\<close>; \<open>u\<close> is the route parameter, \<open>b\<close> the body.\<close>

definition timezone_request :: "string \<Rightarrow> (string \<times> jsval) list \<Rightarrow> request" where
  "timezone_request u b =
     Post (''/api/v1/user_id/'' @ u @ ''/time_zone'')
       (JObj [(''time_zone'', js_get (JObj b) ''time_zone''), (''offset'', js_get (JObj b) ''offset'')])"

definition setTimeZone ::
  "env \<Rightarrow> string \<Rightarrow> (string \<times> jsval) list \<Rightarrow> db \<Rightarrow> response \<times> db \<times> event list" where
  "setTimeZone e u b d =
     (case upstream e (timezone_request u b) of
        Rejected st m \<Rightarrow> (error_response (JsError st m), d, [RookCall (timezone_request u b)])
      | Resolved s v \<Rightarrow>
          (case user_upsert e d (JStr u)
                  (JObj [(''time_zone'', js_get (JObj b) ''time_zone''),
                         (''offset'', js_get (JObj b) ''offset'')])
                  (JObj [(''user_id'', JStr u),
                         (''time_zone'', js_get (JObj b) ''time_zone''),
                         (''offset'', js_get (JObj b) ''offset'')]) of
             Inl err \<Rightarrow> (error_response err, d, [RookCall (timezone_request u b), StoreWrite])
           | Inr d' \<Rightarrow> (res_status_json s v, d', [RookCall (timezone_request u b), StoreWrite])))"

text \<open>\<open>GET /users/:user_id/info\<close>; \<open>date\<close> is \<open>req.query.date\<close>, and \<open>!date\<close> holds when it is
  missing or the empty string.\<close>

fun no_date :: "string option \<Rightarrow> bool" where
  "no_date None = True"
| "no_date (Some s) = (s = [])"

definition profile_request :: "string \<Rightarrow> string option \<Rightarrow> request" where
  "profile_request u date =
     Get (''/v2/processed_data/user/info?user_id='' @ u @ ''&date='' @ interp date)"

text \<open>
  \<open>response.data.user_information.user_demographics?.date_of_birth_string\<close>, read where
  \<open>user_information\<close> is truthy.
\<close>

definition upstream_dob :: "jsval \<Rightarrow> jsval" where
  "upstream_dob v =
     js_get_opt (js_get (js_get v ''user_information'') ''user_demographics'') ''date_of_birth_string''"

text \<open>
  The handler after its early return: the upstream call and the write-back. Reading
  \<open>response.data.user_information\<close> throws a \<open>TypeError\<close> when \<open>response.data\<close> is \<open>null\<close> or
  \<open>undefined\<close>; the \<open>catch\<close> hands every error to \<open>handleNoContent\<close>.
\<close>

definition fetchProfile ::
  "env \<Rightarrow> string \<Rightarrow> string option \<Rightarrow> db \<Rightarrow> response \<times> db \<times> event list" where
  "fetchProfile e u date d =
     (case upstream e (profile_request u date) of
        Rejected st m \<Rightarrow>
          (handleNoContent (JsError st m), d, [StoreRead, RookCall (profile_request u date)])
      | Resolved s v \<Rightarrow>
          (if nullish v then
             (handleNoContent (JsError None (fault_text e TypeError)), d,
              [StoreRead, RookCall (profile_request u date)])
           else if truthy (js_get v ''user_information'') then
             (case user_upsert e d (JStr u)
                     (JObj [(''date_of_birth'', upstream_dob v)])
                     (JObj [(''user_id'', JStr u), (''date_of_birth'', upstream_dob v)]) of
                Inl err \<Rightarrow>
                  (handleNoContent err, d,
                   [StoreRead, RookCall (profile_request u date), StoreWrite])
              | Inr d' \<Rightarrow>
                  (res_status_json s v, d',
                   [StoreRead, RookCall (profile_request u date), StoreWrite]))
           else (res_status_json s v, d, [StoreRead, RookCall (profile_request u date)])))"

text \<open>
  \<open>if (cached && !date) return res.json({ data_structure: 'user_info', user_information: cached })\<close>,
  then the rest of the handler.
\<close>

definition getProfile ::
  "env \<Rightarrow> string \<Rightarrow> string option \<Rightarrow> db \<Rightarrow> response \<times> db \<times> event list" where
  "getProfile e u date d =
     (case user_findUnique e d u of
        Inl err \<Rightarrow> (handleNoContent err, d, [StoreRead])
      | Inr None \<Rightarrow> fetchProfile e u date d
      | Inr (Some cached) \<Rightarrow>
          (if no_date date then
             (res_json (JObj [(''data_structure'', JStr ''user_info''),
                              (''user_information'', json_of_user cached)]), d, [StoreRead])
           else fetchProfile e u date d))"

section \<open>Observations on a run\<close>

text \<open>How many upstream calls, and how many store writes, a run issued.\<close>

definition rook_calls :: "event list \<Rightarrow> nat" where
  "rook_calls t = length (filter (\<lambda>ev. case ev of RookCall q \<Rightarrow> True | _ \<Rightarrow> False) t)"

definition store_writes :: "event list \<Rightarrow> nat" where
  "store_writes t = length (filter (\<lambda>ev. ev = StoreWrite) t)"

text \<open>
  \<open>rookApi\<close> is created by \<open>axios.create\<close> with a base URL, headers and credentials and no
  \<open>validateStatus\<close>, so the library's default decides which HTTP answers resolve: a status
  from 200 to 299 resolves, any other status is thrown as an error that carries it.
  \<open>axios_default s v m\<close> is what the awaited call gives for an HTTP answer of status \<open>s\<close>
  and body \<open>v\<close> (\<open>m\<close> is the message of the error, when one is thrown).
\<close>

definition axios_default :: "nat \<Rightarrow> jsval \<Rightarrow> string \<Rightarrow> upstream_result" where
  "axios_default s v m = (if 200 \<le> s \<and> s < 300 then Resolved s v else Rejected (Some s) m)"

section \<open>Example data\<close>

text \<open>An environment whose upstream always gives the same answer and whose store works.\<close>

definition demo_env :: "upstream_result \<Rightarrow> env" where
  "demo_env r =
     \<lparr>upstream = (\<lambda>q. r), read_fault = None, write_fault = None, now = 0,
      fault_text = (\<lambda>f. [])\<rparr>"

text \<open>The same, with a store whose writes fail.\<close>

definition demo_env_write_down :: "upstream_result \<Rightarrow> env" where
  "demo_env_write_down r = (demo_env r)\<lparr>write_fault := Some ''connection lost''\<rparr>"

text \<open>A stand-in for the validation library: one ISO date, numbers as themselves, the
  failing key as the message.\<close>

definition demo_joi :: joi where
  "demo_joi =
     \<lparr>isoDate = (\<lambda>s. s = ''2024-06-01T00:00:00Z''),
      to_number = (\<lambda>v. case v of JNum r \<Rightarrow> Some r | _ \<Rightarrow> None),
      message_of = (\<lambda>err. case err of Verr k r \<Rightarrow> k)\<rparr>"

definition empty_db :: db where
  "empty_db = \<lparr>user_table = [], healthData = [], healthData_seq = 1\<rparr>"

text \<open>The stored profile \<open>{height_cm: 180, sex: "male"}\<close> of the specification's example.\<close>

definition demo_user :: user_row where
  "demo_user = (blank_row ''u1'')\<lparr>height_cm := Some 180, sex := Some ''male''\<rparr>"

definition demo_db :: db where
  "demo_db = \<lparr>user_table = [demo_user], healthData = [], healthData_seq = 1\<rparr>"

text \<open>The upstream body \<open>{score: 82}\<close> and the store once it is cached for a sleep summary.\<close>

definition demo_score :: jsval where
  "demo_score = JObj [(''score'', JNum 82)]"

definition demo_sleep_row :: health_row where
  "demo_sleep_row =
     \<lparr>hd_id = 1, hd_user_id = ''u1'', hd_data_type = ''sleep_summary'', hd_date = ''2024-06-01'',
      hd_data = demo_score, hd_fetched_at = 0\<rparr>"

definition demo_cached_db :: db where
  "demo_cached_db = \<lparr>user_table = [], healthData = [demo_sleep_row], healthData_seq = 2\<rparr>"

text \<open>A stored profile with a date of birth, and upstream payloads whose
  \<open>date_of_birth_string\<close> is \<open>null\<close> and a date.\<close>

definition demo_born_user :: user_row where
  "demo_born_user = (blank_row ''u1'')\<lparr>date_of_birth := Some ''1990-01-01''\<rparr>"

definition demo_born_db :: db where
  "demo_born_db = \<lparr>user_table = [demo_born_user], healthData = [], healthData_seq = 1\<rparr>"

definition demo_null_dob :: jsval where
  "demo_null_dob =
     JObj [(''user_information'',
            JObj [(''user_demographics'', JObj [(''date_of_birth_string'', JNull)])])]"

definition demo_no_dob :: jsval where
  "demo_no_dob = JObj [(''user_information'', JObj [(''user_body_metrics'', JObj [])])]"

definition demo_dob :: jsval where
  "demo_dob =
     JObj [(''user_information'',
            JObj [(''user_demographics'', JObj [(''date_of_birth_string'', JStr ''1985-05-05'')])])]"

text \<open>The request body \<open>{datetime, user_id: "u1", weight_kg_float: 75}\<close>.\<close>

definition demo_body :: "(string \<times> jsval) list" where
  "demo_body =
     [(''datetime'', JStr ''2024-06-01T00:00:00Z''), (''user_id'', JStr ''u1''),
      (''weight_kg_float'', JNum 75)]"

text \<open>A body with the required keys only, and one in which every other key fails its rule.\<close>

definition demo_min_body :: "(string \<times> jsval) list" where
  "demo_min_body = [(''datetime'', JStr ''2024-06-01T00:00:00Z''), (''user_id'', JStr ''u1'')]"

definition demo_bad_body :: "(string \<times> jsval) list" where
  "demo_bad_body =
     [(''datetime'', JStr ''2024-06-01T00:00:00Z''), (''user_id'', JStr ''u 1''),
      (''date_of_birth_string'', JStr ''1990/01/01''), (''height_cm_int'', JNum (361 / 2)),
      (''weight_kg_float'', JStr ''heavy''), (''bmi_float'', JBool True),
      (''sex_string'', JStr ''other'')]"

section \<open>Auxiliary facts\<close>

lemmas demo_defs = demo_env_def demo_env_write_down_def demo_joi_def empty_db_def demo_user_def
  demo_db_def demo_score_def demo_sleep_row_def demo_cached_db_def demo_body_def
  demo_born_user_def demo_born_db_def demo_null_dob_def demo_dob_def demo_bad_body_def
  demo_min_body_def demo_no_dob_def

lemma find_snoc:
  "find P (xs @ [x]) = (case find P xs of Some y \<Rightarrow> Some y | None \<Rightarrow> if P x then Some x else None)"
  by (induction xs) simp_all

lemma snapshot_where_key:
  "snapshot_where (Some u) t (Some dd) r \<longleftrightarrow> hd_user_id r = u \<and> hd_data_type r = t \<and> hd_date r = dd"
  by (auto simp: snapshot_where_def)

lemma find_first_key:
  assumes "r \<in> set rows" and "hd_user_id r = u" and "hd_data_type r = t" and "hd_date r = dd"
  shows "\<exists>c \<in> set rows. find (snapshot_where (Some u) t (Some dd)) rows = Some c \<and>
           hd_user_id c = u \<and> hd_data_type c = t \<and> hd_date c = dd"
proof (cases "find (snapshot_where (Some u) t (Some dd)) rows")
  case None
  with assms show ?thesis by (auto simp: find_None_iff snapshot_where_key)
next
  case (Some c)
  then show ?thesis by (auto simp: find_Some_iff snapshot_where_key)
qed

lemma getSnapshot_hit:
  assumes "read_fault e = None"
    and "find (snapshot_where uid (data_type_tag sh) date) (healthData d) = Some c"
  shows "getSnapshot e sh uid date d = (res_json (hd_data c), d, [StoreRead])"
  using assms by (simp add: getSnapshot_def healthData_findFirst_def)

lemma getSnapshot_populate:
  assumes "read_fault e = None" and "write_fault e = None"
    and "find (snapshot_where (Some u) (data_type_tag sh) (Some dd)) (healthData d) = None"
    and "upstream e (snapshot_request sh (Some u) (Some dd)) = Resolved s v"
    and "truthy v"
  shows "\<exists>d' c. getSnapshot e sh (Some u) (Some dd) d =
           (res_json v, d', [StoreRead, RookCall (snapshot_request sh (Some u) (Some dd)), StoreWrite])
         \<and> find (snapshot_where (Some u) (data_type_tag sh) (Some dd)) (healthData d') = Some c
         \<and> hd_data c = v"
  using assms
  by (simp add: getSnapshot_def healthData_findFirst_def healthData_create_def find_snoc
      snapshot_where_key)


lemma user_id_apply_args [simp]: "user_id (apply_args a r) = user_id r"
  by (simp add: apply_args_def)

lemma find_map_update:
  "find (\<lambda>r. user_id r = x) (map (\<lambda>r. if user_id r = u then apply_args a r else r) rows) =
     map_option (\<lambda>r. if user_id r = u then apply_args a r else r) (find (\<lambda>r. user_id r = x) rows)"
  by (induction rows) auto

lemma user_upsert_health:
  "user_upsert e d w upd crt = Inr d' \<Longrightarrow> healthData d' = healthData d"
  by (auto simp: user_upsert_def split: jsval.splits if_splits option.splits)

lemma user_upsert_existing:
  assumes "user_upsert e d (JStr u) upd crt = Inr d'"
    and "find_user x d = Some old"
  shows "find_user x d' = Some (if x = u then apply_args upd old else old)"
proof -
  from assms(2) have x: "user_id old = x"
    by (auto simp: find_user_def find_Some_iff)
  show ?thesis
  proof (cases "find_user u d")
    case None
    with assms x show ?thesis
      by (auto simp: user_upsert_def find_user_def find_snoc split: jsval.splits if_splits option.splits)
  next
    case (Some o2)
    with assms x show ?thesis
      by (auto simp: user_upsert_def find_user_def find_map_update split: jsval.splits if_splits option.splits)
  qed
qed

lemma user_upsert_created:
  assumes "user_upsert e d (JStr u) upd crt = Inr d'"
    and "find_user u d = None" and "js_get crt ''user_id'' = JStr u"
  shows "find_user u d' = Some (apply_args crt (blank_row u))"
  using assms
  by (auto simp: user_upsert_def find_user_def find_snoc blank_row_def split: jsval.splits if_splits option.splits)

lemma user_upsert_accepts:
  assumes "write_fault e = None" and "args_ok upd" and "args_ok crt" and "js_get crt ''user_id'' = JStr u'"
  shows "\<exists>d'. user_upsert e d (JStr u) upd crt = Inr d'"
  using assms by (auto simp: user_upsert_def find_user_def split: option.splits)

lemma first_failure_None:
  "first_failure xs = None \<longleftrightarrow> (\<forall>kr \<in> set xs. snd kr = None)"
  by (induction xs rule: first_failure.induct) auto

lemma valid_user_id:
  assumes "userSchema_validate j b = None"
  shows "\<exists>u. js_get (JObj b) ''user_id'' = JStr u \<and> user_id_pattern u"
proof -
  have "joi_key True (joi_string (\<lambda>s. if user_id_pattern s then None else Some PatternMismatch))
              (js_get (JObj b) ''user_id'') = None"
    using assms
    by (simp add: userSchema_validate_def first_failure_None del: js_get.simps split: option.splits)
  then show ?thesis
    by (cases "js_get (JObj b) ''user_id''") (auto simp: joi_key_def split: if_splits)
qed

lemma apply_args_frame:
  "time_zone (apply_args (JObj (profile_args b)) r) = time_zone r"
  "offset (apply_args (JObj (profile_args b)) r) = offset r"
  "js_get (JObj b) ''date_of_birth_string'' = JUndefined \<Longrightarrow>
     date_of_birth (apply_args (JObj (profile_args b)) r) = date_of_birth r"
  "js_get (JObj b) ''height_cm_int'' = JUndefined \<Longrightarrow>
     height_cm (apply_args (JObj (profile_args b)) r) = height_cm r"
  "js_get (JObj b) ''weight_kg_float'' = JUndefined \<Longrightarrow>
     weight_kg (apply_args (JObj (profile_args b)) r) = weight_kg r"
  "js_get (JObj b) ''bmi_float'' = JUndefined \<Longrightarrow>
     bmi (apply_args (JObj (profile_args b)) r) = bmi r"
  "js_get (JObj b) ''sex_string'' = JUndefined \<Longrightarrow>
     sex (apply_args (JObj (profile_args b)) r) = sex r"
  by (simp_all add: apply_args_def profile_args_def)

lemma args_ok_create:
  "args_ok (JObj ((''user_id'', x) # profile_args b)) = args_ok (JObj (profile_args b))"
  by (simp add: args_ok_def profile_args_def)

text \<open>The handler after the validating middleware has let the request through.\<close>

lemma submitProfile_valid:
  assumes "userSchema_validate j b = None" and "js_get (JObj b) ''user_id'' = JStr u"
  shows "submitProfile e j b d =
     (case upstream e (Post ''/api/v2/user-information'' (JObj b)) of
        Rejected st m \<Rightarrow>
          (error_response (JsError st m), d, [RookCall (Post ''/api/v2/user-information'' (JObj b))])
      | Resolved s v \<Rightarrow>
          (case user_upsert e d (JStr u) (JObj (profile_args b))
                  (JObj ((''user_id'', JStr u) # profile_args b)) of
             Inl err \<Rightarrow>
               (error_response err, d,
                [RookCall (Post ''/api/v2/user-information'' (JObj b)), StoreWrite])
           | Inr d' \<Rightarrow>
               (res_status_json s v, d',
                [RookCall (Post ''/api/v2/user-information'' (JObj b)), StoreWrite])))"
  using assms
  by (cases "upstream e (Post ''/api/v2/user-information'' (JObj b))")
     (simp_all add: submitProfile_def del: js_get.simps)

lemma submitProfile_store:
  assumes "submitProfile e j b d = (resp, d', t)"
  shows "(d' = d \<and> (userSchema_validate j b = None \<longrightarrow>
            (\<forall>s v. upstream e (Post ''/api/v2/user-information'' (JObj b)) = Resolved s v \<longrightarrow>
               (\<forall>u. js_get (JObj b) ''user_id'' = JStr u \<longrightarrow>
                  (\<exists>err. user_upsert e d (JStr u) (JObj (profile_args b))
                      (JObj ((''user_id'', JStr u) # profile_args b)) = Inl err)))))
       \<or> (\<exists>u s v. js_get (JObj b) ''user_id'' = JStr u \<and>
            upstream e (Post ''/api/v2/user-information'' (JObj b)) = Resolved s v \<and>
            userSchema_validate j b = None \<and> resp = res_status_json s v \<and>
            user_upsert e d (JStr u) (JObj (profile_args b))
              (JObj ((''user_id'', JStr u) # profile_args b)) = Inr d')"
proof (cases "userSchema_validate j b")
  case (Some err)
  with assms show ?thesis by (simp add: submitProfile_def)
next
  case None
  then obtain u where u: "js_get (JObj b) ''user_id'' = JStr u"
    using valid_user_id by blast
  from assms show ?thesis
    unfolding submitProfile_valid [OF None u] using None u
    by (auto split: upstream_result.splits sum.splits)
qed


lemma valid_checks:
  assumes "userSchema_validate j b = None"
  shows "joi_key True (joi_string (\<lambda>s. if user_id_pattern s then None else Some PatternMismatch))
           (js_get (JObj b) ''user_id'') = None"
    and "joi_key False (joi_string (\<lambda>s. if date_pattern s then None else Some PatternMismatch))
           (js_get (JObj b) ''date_of_birth_string'') = None"
    and "joi_key False (joi_number j True) (js_get (JObj b) ''height_cm_int'') = None"
    and "joi_key False (joi_number j False) (js_get (JObj b) ''weight_kg_float'') = None"
    and "joi_key False (joi_number j False) (js_get (JObj b) ''bmi_float'') = None"
    and "joi_key False (joi_valid [JStr ''female'', JStr ''male'']) (js_get (JObj b) ''sex_string'') = None"
  using assms
  by (simp_all add: userSchema_validate_def first_failure_None del: js_get.simps joi_valid.simps
      split: option.splits)

lemma joi_string_None:
  "joi_string test v = None \<Longrightarrow> \<exists>s. v = JStr s \<and> s \<noteq> [] \<and> test s = None"
  by (cases v) (auto split: if_splits)

lemma args_ok_timezone:
  "args_ok (JObj [(''time_zone'', tz), (''offset'', off)]) =
     (\<not> is_bad (text_arg tz) \<and> \<not> is_bad (text_arg off))"
  "args_ok (JObj [(''user_id'', x), (''time_zone'', tz), (''offset'', off)]) =
     (\<not> is_bad (text_arg tz) \<and> \<not> is_bad (text_arg off))"
  by (simp_all add: args_ok_def)

lemma apply_args_timezone:
  "apply_args (JObj [(''time_zone'', tz), (''offset'', off)]) r =
     r\<lparr>time_zone := put (text_arg tz) (time_zone r), offset := put (text_arg off) (offset r)\<rparr>"
  "apply_args (JObj [(''user_id'', x), (''time_zone'', tz), (''offset'', off)]) r =
     r\<lparr>time_zone := put (text_arg tz) (time_zone r), offset := put (text_arg off) (offset r)\<rparr>"
  by (simp_all add: apply_args_def)

lemma status_or_500_422: "status_or_500 st = 422 \<Longrightarrow> st = Some 422"
  by (cases st) (auto split: if_splits)

lemma user_upsert_error:
  "user_upsert e d w upd crt = Inl err \<Longrightarrow> \<exists>m. err = JsError None m"
  by (auto simp: user_upsert_def split: jsval.splits if_splits option.splits)

lemma apply_args_dob:
  "apply_args (JObj [(''date_of_birth'', x)]) r = r\<lparr>date_of_birth := put (text_arg x) (date_of_birth r)\<rparr>"
  "apply_args (JObj [(''user_id'', y), (''date_of_birth'', x)]) r =
     r\<lparr>date_of_birth := put (text_arg x) (date_of_birth r)\<rparr>"
  by (simp_all add: apply_args_def)

lemma args_ok_dob:
  "args_ok (JObj [(''date_of_birth'', x)]) = (\<not> is_bad (text_arg x))"
  "args_ok (JObj [(''user_id'', y), (''date_of_birth'', x)]) = (\<not> is_bad (text_arg x))"
  by (simp_all add: args_ok_def)

lemma put_changed: "put a old \<noteq> old \<Longrightarrow> a = Put (put a old)"
  by (cases a) auto

text \<open>What a run of the upstream path of \<open>getProfile\<close> does to the store.\<close>

lemma fetchProfile_store:
  assumes "fetchProfile e u date d = (resp, d', t)"
  shows "d' = d \<or>
     (\<exists>s v. upstream e (profile_request u date) = Resolved s v \<and> \<not> nullish v \<and>
        truthy (js_get v ''user_information'') \<and> resp = \<lparr>status = s, body = Some v\<rparr> \<and>
        user_upsert e d (JStr u) (JObj [(''date_of_birth'', upstream_dob v)])
          (JObj [(''user_id'', JStr u), (''date_of_birth'', upstream_dob v)]) = Inr d')"
  using assms
  by (auto simp: fetchProfile_def res_status_json_def simp del: js_get.simps
      split: upstream_result.splits sum.splits if_splits)

lemma getProfile_store:
  assumes "getProfile e u date d = (resp, d', t)"
  shows "d' = d \<or>
     (\<exists>s v. upstream e (profile_request u date) = Resolved s v \<and> \<not> nullish v \<and>
        truthy (js_get v ''user_information'') \<and> resp = \<lparr>status = s, body = Some v\<rparr> \<and>
        user_upsert e d (JStr u) (JObj [(''date_of_birth'', upstream_dob v)])
          (JObj [(''user_id'', JStr u), (''date_of_birth'', upstream_dob v)]) = Inr d')"
proof (cases "fetchProfile e u date d = (resp, d', t)")
  case True
  then show ?thesis by (rule fetchProfile_store)
next
  case False
  with assms have "d' = d"
    by (auto simp: getProfile_def split: sum.splits option.splits if_splits)
  then show ?thesis by simp
qed

lemma fetchProfile_success:
  assumes "upstream e (profile_request u date) = Resolved s v" and "\<not> nullish v"
    and "write_fault e = None" and "\<not> is_bad (text_arg (upstream_dob v))"
  shows "fst (fetchProfile e u date d) = \<lparr>status = s, body = Some v\<rparr>"
proof (cases "truthy (js_get v ''user_information'')")
  case False
  with assms show ?thesis
    by (simp add: fetchProfile_def res_status_json_def del: js_get.simps)
next
  case True
  have uid: "js_get (JObj [(''user_id'', JStr u), (''date_of_birth'', upstream_dob v)]) ''user_id'' = JStr u"
    by simp
  from assms have ok: "args_ok (JObj [(''date_of_birth'', upstream_dob v)])"
      "args_ok (JObj [(''user_id'', JStr u), (''date_of_birth'', upstream_dob v)])"
    by (simp_all add: args_ok_dob)
  from user_upsert_accepts [OF assms(3) ok uid]
  obtain d' where "user_upsert e d (JStr u) (JObj [(''date_of_birth'', upstream_dob v)])
          (JObj [(''user_id'', JStr u), (''date_of_birth'', upstream_dob v)]) = Inr d'"
    by blast
  with assms True show ?thesis
    by (simp add: fetchProfile_def res_status_json_def del: js_get.simps)
qed

lemma getProfile_upstream_path:
  assumes "getProfile e u date d = (resp, d', t)" and "RookCall (profile_request u date) \<in> set t"
  shows "getProfile e u date d = fetchProfile e u date d"
  using assms
  by (auto simp: getProfile_def split: sum.splits option.splits if_splits)

lemma getSnapshot_rejected_204:
  assumes "read_fault e = None"
    and "find (snapshot_where uid (data_type_tag sh) date) (healthData d) = None"
    and "upstream e (snapshot_request sh uid date) = Rejected (Some 204) m"
  shows "getSnapshot e sh uid date d =
     (\<lparr>status = 204, body = None\<rparr>, d, [StoreRead, RookCall (snapshot_request sh uid date)])"
  using assms by (simp add: getSnapshot_def healthData_findFirst_def)

section \<open>The health-snapshot cache\<close>

text \<open>
  C1. Where the store holds a row for the key (user_id, data_type, date) and answers the
  lookup, \<open>getSnapshot\<close> returns the \<open>data\<close> of the first such row, leaves the store as
  it is and issues the store read only: no upstream call. Consequently, when a first call
  misses, gets a non-empty upstream body and writes its row, a second call with the same
  key returns the same data, and the two runs together made exactly one upstream call.
\<close>

theorem getSnapshot_cache:
  "(read_fault e = None \<and> r \<in> set (healthData d) \<and> hd_user_id r = u \<and>
    hd_data_type r = data_type_tag sh \<and> hd_date r = dd \<longrightarrow>
      (\<exists>c \<in> set (healthData d).
         hd_user_id c = u \<and> hd_data_type c = data_type_tag sh \<and> hd_date c = dd \<and>
         find (snapshot_where (Some u) (data_type_tag sh) (Some dd)) (healthData d) = Some c \<and>
         getSnapshot e sh (Some u) (Some dd) d = (res_json (hd_data c), d, [StoreRead])))
   \<and>
   (read_fault e1 = None \<and> write_fault e1 = None \<and> read_fault e2 = None \<and>
    find (snapshot_where (Some u) (data_type_tag sh) (Some dd)) (healthData d0) = None \<and>
    upstream e1 (snapshot_request sh (Some u) (Some dd)) = Resolved s v \<and> truthy v \<longrightarrow>
      (\<exists>d1 t1 t2.
         getSnapshot e1 sh (Some u) (Some dd) d0 = (res_json v, d1, t1) \<and>
         getSnapshot e2 sh (Some u) (Some dd) d1 = (res_json v, d1, t2) \<and>
         rook_calls (t1 @ t2) = 1))"
proof (intro conjI impI)
  assume a: "read_fault e = None \<and> r \<in> set (healthData d) \<and> hd_user_id r = u \<and>
    hd_data_type r = data_type_tag sh \<and> hd_date r = dd"
  then obtain c where c: "c \<in> set (healthData d)"
      "find (snapshot_where (Some u) (data_type_tag sh) (Some dd)) (healthData d) = Some c"
      "hd_user_id c = u" "hd_data_type c = data_type_tag sh" "hd_date c = dd"
    using find_first_key [of r "healthData d" u "data_type_tag sh" dd] by blast
  from a c(2) have "getSnapshot e sh (Some u) (Some dd) d = (res_json (hd_data c), d, [StoreRead])"
    by (simp add: getSnapshot_hit)
  with c show "\<exists>c \<in> set (healthData d).
         hd_user_id c = u \<and> hd_data_type c = data_type_tag sh \<and> hd_date c = dd \<and>
         find (snapshot_where (Some u) (data_type_tag sh) (Some dd)) (healthData d) = Some c \<and>
         getSnapshot e sh (Some u) (Some dd) d = (res_json (hd_data c), d, [StoreRead])"
    by auto
next
  assume a: "read_fault e1 = None \<and> write_fault e1 = None \<and> read_fault e2 = None \<and>
    find (snapshot_where (Some u) (data_type_tag sh) (Some dd)) (healthData d0) = None \<and>
    upstream e1 (snapshot_request sh (Some u) (Some dd)) = Resolved s v \<and> truthy v"
  then obtain d1 c where first:
      "getSnapshot e1 sh (Some u) (Some dd) d0 =
         (res_json v, d1, [StoreRead, RookCall (snapshot_request sh (Some u) (Some dd)), StoreWrite])"
      "find (snapshot_where (Some u) (data_type_tag sh) (Some dd)) (healthData d1) = Some c"
      "hd_data c = v"
    using getSnapshot_populate [of e1 u sh dd d0 s v] by blast
  from a first(2,3) have second: "getSnapshot e2 sh (Some u) (Some dd) d1 = (res_json v, d1, [StoreRead])"
    by (simp add: getSnapshot_hit)
  from first(1) second show "\<exists>d1 t1 t2.
         getSnapshot e1 sh (Some u) (Some dd) d0 = (res_json v, d1, t1) \<and>
         getSnapshot e2 sh (Some u) (Some dd) d1 = (res_json v, d1, t2) \<and>
         rook_calls (t1 @ t2) = 1"
    by (auto simp: rook_calls_def)
qed

theorem getSnapshot_cache_witness:
  "demo_sleep_row \<in> set (healthData demo_cached_db) \<and>
   hd_user_id demo_sleep_row = ''u1'' \<and>
   hd_data_type demo_sleep_row = data_type_tag SleepSummary \<and>
   hd_date demo_sleep_row = ''2024-06-01'' \<and>
   find (snapshot_where (Some ''u1'') (data_type_tag SleepSummary) (Some ''2024-06-01''))
     (healthData empty_db) = None \<and>
   upstream (demo_env (Resolved 200 demo_score))
     (snapshot_request SleepSummary (Some ''u1'') (Some ''2024-06-01'')) = Resolved 200 demo_score \<and>
   truthy demo_score \<and>
   getSnapshot (demo_env (Resolved 200 demo_score)) SleepSummary (Some ''u1'') (Some ''2024-06-01'')
     empty_db =
     (res_json demo_score, demo_cached_db,
      [StoreRead,
       RookCall (Get ''/v2/processed_data/sleep_health/summary?user_id=u1&date=2024-06-01''),
       StoreWrite]) \<and>
   getSnapshot (demo_env (Rejected None ''unreachable'')) SleepSummary (Some ''u1'')
     (Some ''2024-06-01'') demo_cached_db =
     (res_json demo_score, demo_cached_db, [StoreRead]) \<and>
   rook_calls
     ([StoreRead,
       RookCall (Get ''/v2/processed_data/sleep_health/summary?user_id=u1&date=2024-06-01''),
       StoreWrite] @ [StoreRead]) = 1"
  using getSnapshot_cache [where e = "demo_env (Rejected None ''unreachable'')"
      and r = demo_sleep_row and d = demo_cached_db and u = "''u1''" and sh = SleepSummary
      and dd = "''2024-06-01''" and ?e1.0 = "demo_env (Resolved 200 demo_score)"
      and ?e2.0 = "demo_env (Rejected None ''unreachable'')" and ?d0.0 = empty_db
      and s = 200 and v = demo_score]
  by (simp add: demo_defs getSnapshot_def healthData_findFirst_def healthData_create_def
      snapshot_where_def snapshot_request_def res_json_def rook_calls_def)

section \<open>Profile merge\<close>

text \<open>
  C2. For every stored profile row and every run of \<open>submitProfile\<close>, the row is still
  there afterwards, its \<open>time_zone\<close> and \<open>offset\<close> are untouched, and every profile field
  whose key is absent from the input keeps its stored value (so it is never set to null).
  Where the input is valid, upstream accepts it and the store takes the write, the row of
  the input's user is the stored row with exactly the input's fields overwritten, and the
  upstream's answer is passed on.
\<close>

theorem submitProfile_merge:
  assumes row: "find_user u d = Some old"
    and run: "submitProfile e j b d = (resp, d', t)"
  shows "\<exists>new. find_user u d' = Some new \<and>
     user_id new = user_id old \<and> time_zone new = time_zone old \<and> offset new = offset old \<and>
     (js_get (JObj b) ''date_of_birth_string'' = JUndefined \<longrightarrow> date_of_birth new = date_of_birth old) \<and>
     (js_get (JObj b) ''height_cm_int'' = JUndefined \<longrightarrow> height_cm new = height_cm old) \<and>
     (js_get (JObj b) ''weight_kg_float'' = JUndefined \<longrightarrow> weight_kg new = weight_kg old) \<and>
     (js_get (JObj b) ''bmi_float'' = JUndefined \<longrightarrow> bmi new = bmi old) \<and>
     (js_get (JObj b) ''sex_string'' = JUndefined \<longrightarrow> sex new = sex old) \<and>
     (userSchema_validate j b = None \<and>
      upstream e (Post ''/api/v2/user-information'' (JObj b)) = Resolved s v \<and>
      js_get (JObj b) ''user_id'' = JStr u \<and>
      write_fault e = None \<and> args_ok (JObj (profile_args b)) \<longrightarrow>
        new = apply_args (JObj (profile_args b)) old \<and> resp = res_status_json s v)"
proof -
  from submitProfile_store [OF run] show ?thesis
  proof (elim disjE conjE exE)
    assume same: "d' = d"
      and fails: "userSchema_validate j b = None \<longrightarrow>
            (\<forall>s v. upstream e (Post ''/api/v2/user-information'' (JObj b)) = Resolved s v \<longrightarrow>
               (\<forall>u. js_get (JObj b) ''user_id'' = JStr u \<longrightarrow>
                  (\<exists>err. user_upsert e d (JStr u) (JObj (profile_args b))
                      (JObj ((''user_id'', JStr u) # profile_args b)) = Inl err)))"
    have "\<not> (userSchema_validate j b = None \<and>
      upstream e (Post ''/api/v2/user-information'' (JObj b)) = Resolved s v \<and>
      js_get (JObj b) ''user_id'' = JStr u \<and>
      write_fault e = None \<and> args_ok (JObj (profile_args b)))"
    proof
      assume a: "userSchema_validate j b = None \<and>
        upstream e (Post ''/api/v2/user-information'' (JObj b)) = Resolved s v \<and>
        js_get (JObj b) ''user_id'' = JStr u \<and>
        write_fault e = None \<and> args_ok (JObj (profile_args b))"
      then obtain err where "user_upsert e d (JStr u) (JObj (profile_args b))
                      (JObj ((''user_id'', JStr u) # profile_args b)) = Inl err"
        using fails by blast
      moreover have "\<exists>d'. user_upsert e d (JStr u) (JObj (profile_args b))
                      (JObj ((''user_id'', JStr u) # profile_args b)) = Inr d'"
        using a by (intro user_upsert_accepts [where u' = u]) (simp_all add: args_ok_create)
      ultimately show False by auto
    qed
    with same row show ?thesis by (intro exI [of _ old]) (auto simp del: js_get.simps)
  next
    fix u' s' v'
    assume up: "js_get (JObj b) ''user_id'' = JStr u'"
      "upstream e (Post ''/api/v2/user-information'' (JObj b)) = Resolved s' v'"
      "resp = res_status_json s' v'"
      "user_upsert e d (JStr u') (JObj (profile_args b))
              (JObj ((''user_id'', JStr u') # profile_args b)) = Inr d'"
    from user_upsert_existing [OF up(4) row]
    have new: "find_user u d' = Some (if u = u' then apply_args (JObj (profile_args b)) old else old)" .
    show ?thesis
      using new up by (auto simp: apply_args_frame)
  qed
qed

theorem submitProfile_merge_witness:
  "find_user ''u1'' demo_db = Some demo_user \<and>
   userSchema_validate demo_joi demo_body = None \<and>
   args_ok (JObj (profile_args demo_body)) \<and>
   js_get (JObj demo_body) ''height_cm_int'' = JUndefined \<and>
   js_get (JObj demo_body) ''sex_string'' = JUndefined \<and>
   submitProfile (demo_env (Resolved 200 JNull)) demo_joi demo_body demo_db =
     (res_status_json 200 JNull,
      demo_db\<lparr>user_table := [demo_user\<lparr>weight_kg := Some 75\<rparr>]\<rparr>,
      [RookCall (Post ''/api/v2/user-information'' (JObj demo_body)), StoreWrite]) \<and>
   find_user ''u1'' (demo_db\<lparr>user_table := [demo_user\<lparr>weight_kg := Some 75\<rparr>]\<rparr>) =
     Some (demo_user\<lparr>weight_kg := Some 75\<rparr>) \<and>
   height_cm (demo_user\<lparr>weight_kg := Some 75\<rparr>) = Some 180 \<and>
   sex (demo_user\<lparr>weight_kg := Some 75\<rparr>) = Some ''male'' \<and>
   js_get (JObj demo_min_body) ''weight_kg_float'' = JUndefined \<and>
   submitProfile (demo_env (Resolved 200 JNull)) demo_joi demo_min_body demo_db =
     (res_status_json 200 JNull, demo_db,
      [RookCall (Post ''/api/v2/user-information'' (JObj demo_min_body)), StoreWrite])"
  using submitProfile_merge [where u = "''u1''" and d = demo_db and old = demo_user
      and e = "demo_env (Resolved 200 JNull)" and j = demo_joi and b = demo_body
      and resp = "res_status_json 200 JNull"
      and d' = "demo_db\<lparr>user_table := [demo_user\<lparr>weight_kg := Some 75\<rparr>]\<rparr>"
      and t = "[RookCall (Post ''/api/v2/user-information'' (JObj demo_body)), StoreWrite]"
      and s = 200 and v = JNull]
    submitProfile_merge [where u = "''u1''" and d = demo_db and old = demo_user
      and e = "demo_env (Resolved 200 JNull)" and j = demo_joi and b = demo_min_body
      and resp = "res_status_json 200 JNull" and d' = demo_db
      and t = "[RookCall (Post ''/api/v2/user-information'' (JObj demo_min_body)), StoreWrite]"
      and s = 200 and v = JNull]
  by (simp add: demo_defs submitProfile_def userSchema_validate_def joi_key_def joi_number_def
      user_id_pattern_def id_char_def schema_keys_def profile_args_def user_upsert_def args_ok_def
      apply_args_def blank_row_def find_user_def res_status_json_def)

text \<open>
  C3. Where the input is valid and the upstream call fails (an error with or without a
  response), \<open>submitProfile\<close> issues the upstream call only, leaves the store as it is, and
  answers with the error's message under the upstream's status (500 when the error has no
  response). In every run at most one store write is issued, and a write is issued, or the
  store changed, only where the input was valid and the upstream call resolved.
\<close>

theorem submitProfile_upstream_failure:
  "(userSchema_validate j b = None \<and>
    upstream e (Post ''/api/v2/user-information'' (JObj b)) = Rejected st m \<longrightarrow>
      submitProfile e j b d =
        (\<lparr>status = status_or_500 st, body = Some (JObj [(''error'', JStr m)])\<rparr>, d,
         [RookCall (Post ''/api/v2/user-information'' (JObj b))]) \<and>
      (\<forall>s. st = Some s \<and> 0 < s \<longrightarrow> status (fst (submitProfile e j b d)) = s) \<and>
      (st = None \<longrightarrow> status (fst (submitProfile e j b d)) = 500))
   \<and>
   (submitProfile e j b d = (resp, d', t) \<longrightarrow>
      store_writes t \<le> 1 \<and>
      (0 < store_writes t \<or> d' \<noteq> d \<longrightarrow>
         userSchema_validate j b = None \<and>
         (\<exists>s v. upstream e (Post ''/api/v2/user-information'' (JObj b)) = Resolved s v)))"
proof (intro conjI impI)
  assume a: "userSchema_validate j b = None \<and>
    upstream e (Post ''/api/v2/user-information'' (JObj b)) = Rejected st m"
  then show run: "submitProfile e j b d =
        (\<lparr>status = status_or_500 st, body = Some (JObj [(''error'', JStr m)])\<rparr>, d,
         [RookCall (Post ''/api/v2/user-information'' (JObj b))])"
    by (simp add: submitProfile_def)
  show "\<forall>s. st = Some s \<and> 0 < s \<longrightarrow> status (fst (submitProfile e j b d)) = s"
    by (simp add: run)
  show "status (fst (submitProfile e j b d)) = 500" if "st = None"
    using that by (simp add: run)
next
  assume run: "submitProfile e j b d = (resp, d', t)"
  then show "store_writes t \<le> 1"
    by (auto simp: submitProfile_def store_writes_def
        split: option.splits upstream_result.splits sum.splits)
next
  assume run: "submitProfile e j b d = (resp, d', t)"
    and w: "0 < store_writes t \<or> d' \<noteq> d"
  then show "userSchema_validate j b = None"
    by (auto simp: submitProfile_def store_writes_def
        split: option.splits upstream_result.splits sum.splits)
next
  assume run: "submitProfile e j b d = (resp, d', t)"
    and w: "0 < store_writes t \<or> d' \<noteq> d"
  then show "\<exists>s v. upstream e (Post ''/api/v2/user-information'' (JObj b)) = Resolved s v"
    by (auto simp: submitProfile_def store_writes_def
        split: option.splits upstream_result.splits sum.splits)
qed

theorem submitProfile_upstream_failure_witness:
  "userSchema_validate demo_joi demo_body = None \<and>
   upstream (demo_env (Rejected (Some 400) ''Request failed with status code 400''))
     (Post ''/api/v2/user-information'' (JObj demo_body)) =
     Rejected (Some 400) ''Request failed with status code 400'' \<and>
   submitProfile (demo_env (Rejected (Some 400) ''Request failed with status code 400''))
     demo_joi demo_body demo_db =
     (\<lparr>status = 400, body = Some (JObj [(''error'', JStr ''Request failed with status code 400'')])\<rparr>,
      demo_db, [RookCall (Post ''/api/v2/user-information'' (JObj demo_body))]) \<and>
   store_writes [RookCall (Post ''/api/v2/user-information'' (JObj demo_body))] = 0 \<and>
   submitProfile (demo_env (Resolved 200 JNull)) demo_joi demo_body demo_db =
     (\<lparr>status = 200, body = Some JNull\<rparr>,
      demo_db\<lparr>user_table := [demo_user\<lparr>weight_kg := Some 75\<rparr>]\<rparr>,
      [RookCall (Post ''/api/v2/user-information'' (JObj demo_body)), StoreWrite]) \<and>
   store_writes [RookCall (Post ''/api/v2/user-information'' (JObj demo_body)), StoreWrite] = 1 \<and>
   upstream (demo_env (Resolved 200 JNull)) (Post ''/api/v2/user-information'' (JObj demo_body)) =
     Resolved 200 JNull"
  using submitProfile_upstream_failure [where j = demo_joi and b = demo_body
      and e = "demo_env (Rejected (Some 400) ''Request failed with status code 400'')"
      and st = "Some 400" and m = "''Request failed with status code 400''" and d = demo_db
      and resp = "\<lparr>status = 400, body = Some (JObj [(''error'', JStr ''Request failed with status code 400'')])\<rparr>"
      and d' = demo_db and t = "[RookCall (Post ''/api/v2/user-information'' (JObj demo_body))]"]
    submitProfile_upstream_failure [where j = demo_joi and b = demo_body
      and e = "demo_env (Resolved 200 JNull)" and d = demo_db
      and resp = "\<lparr>status = 200, body = Some JNull\<rparr>"
      and d' = "demo_db\<lparr>user_table := [demo_user\<lparr>weight_kg := Some 75\<rparr>]\<rparr>"
      and t = "[RookCall (Post ''/api/v2/user-information'' (JObj demo_body)), StoreWrite]"]
  by (simp add: demo_defs submitProfile_def userSchema_validate_def joi_key_def joi_number_def
      user_id_pattern_def id_char_def schema_keys_def store_writes_def profile_args_def
      user_upsert_def args_ok_def apply_args_def blank_row_def find_user_def res_status_json_def)

section \<open>Cache misses\<close>

text \<open>
  C4. On a cache miss where the upstream call resolves with an absent or empty body
  (\<open>undefined\<close>, \<open>null\<close> or the empty string), \<open>getSnapshot\<close> returns that body and
  leaves the store as it is: no row is created and no write is issued. A run that changes
  the store appended exactly one row, holding a resolved body that is none of the three.
\<close>

theorem getSnapshot_empty_body:
  "(read_fault e = None \<and>
    find (snapshot_where uid (data_type_tag sh) date) (healthData d) = None \<and>
    upstream e (snapshot_request sh uid date) = Resolved s v \<and>
    (v = JUndefined \<or> v = JNull \<or> v = JStr []) \<longrightarrow>
      getSnapshot e sh uid date d =
        (res_json v, d, [StoreRead, RookCall (snapshot_request sh uid date)]))
   \<and>
   (getSnapshot e sh uid date d = (resp, d', t) \<and> d' \<noteq> d \<longrightarrow>
      (\<exists>s v u dd. upstream e (snapshot_request sh uid date) = Resolved s v \<and> truthy v \<and>
         v \<noteq> JUndefined \<and> v \<noteq> JNull \<and> v \<noteq> JStr [] \<and>
         uid = Some u \<and> date = Some dd \<and>
         healthData d' = healthData d @
           [\<lparr>hd_id = healthData_seq d, hd_user_id = u, hd_data_type = data_type_tag sh,
             hd_date = dd, hd_data = v, hd_fetched_at = now e\<rparr>]))"
proof (intro conjI impI)
  assume "read_fault e = None \<and>
    find (snapshot_where uid (data_type_tag sh) date) (healthData d) = None \<and>
    upstream e (snapshot_request sh uid date) = Resolved s v \<and>
    (v = JUndefined \<or> v = JNull \<or> v = JStr [])"
  then show "getSnapshot e sh uid date d =
        (res_json v, d, [StoreRead, RookCall (snapshot_request sh uid date)])"
    by (auto simp: getSnapshot_def healthData_findFirst_def)
next
  assume "getSnapshot e sh uid date d = (resp, d', t) \<and> d' \<noteq> d"
  then show "\<exists>s v u dd. upstream e (snapshot_request sh uid date) = Resolved s v \<and> truthy v \<and>
         v \<noteq> JUndefined \<and> v \<noteq> JNull \<and> v \<noteq> JStr [] \<and>
         uid = Some u \<and> date = Some dd \<and>
         healthData d' = healthData d @
           [\<lparr>hd_id = healthData_seq d, hd_user_id = u, hd_data_type = data_type_tag sh,
             hd_date = dd, hd_data = v, hd_fetched_at = now e\<rparr>]"
    by (auto simp: getSnapshot_def healthData_findFirst_def healthData_create_def
        split: sum.splits option.splits upstream_result.splits if_splits)
qed

theorem getSnapshot_empty_body_witness:
  "find (snapshot_where (Some ''u1'') (data_type_tag SleepSummary) (Some ''2024-06-01''))
     (healthData empty_db) = None \<and>
   upstream (demo_env (Resolved 200 (JStr [])))
     (snapshot_request SleepSummary (Some ''u1'') (Some ''2024-06-01'')) = Resolved 200 (JStr []) \<and>
   getSnapshot (demo_env (Resolved 200 (JStr []))) SleepSummary (Some ''u1'') (Some ''2024-06-01'')
     empty_db =
     (res_json (JStr []), empty_db,
      [StoreRead,
       RookCall (Get ''/v2/processed_data/sleep_health/summary?user_id=u1&date=2024-06-01'')]) \<and>
   healthData empty_db = [] \<and>
   getSnapshot (demo_env (Resolved 200 demo_score)) SleepSummary (Some ''u1'') (Some ''2024-06-01'')
     empty_db =
     (res_json demo_score, demo_cached_db,
      [StoreRead,
       RookCall (Get ''/v2/processed_data/sleep_health/summary?user_id=u1&date=2024-06-01''),
       StoreWrite]) \<and>
   demo_cached_db \<noteq> empty_db \<and>
   healthData demo_cached_db = healthData empty_db @ [demo_sleep_row] \<and>
   truthy demo_score"
  using getSnapshot_empty_body [where e = "demo_env (Resolved 200 (JStr []))" and sh = SleepSummary
      and uid = "Some ''u1''" and date = "Some ''2024-06-01''" and d = empty_db and s = 200
      and v = "JStr []" and resp = "res_json (JStr [])" and d' = empty_db
      and t = "[StoreRead,
       RookCall (Get ''/v2/processed_data/sleep_health/summary?user_id=u1&date=2024-06-01'')]"]
    getSnapshot_empty_body [where e = "demo_env (Resolved 200 demo_score)" and sh = SleepSummary
      and uid = "Some ''u1''" and date = "Some ''2024-06-01''" and d = empty_db
      and resp = "res_json demo_score" and d' = demo_cached_db
      and t = "[StoreRead,
       RookCall (Get ''/v2/processed_data/sleep_health/summary?user_id=u1&date=2024-06-01''),
       StoreWrite]"]
  by (simp add: demo_defs getSnapshot_def healthData_findFirst_def healthData_create_def
      snapshot_request_def snapshot_where_def res_json_def)

section \<open>Validation\<close>

text \<open>
  C7. Where \<open>userSchema\<close> reports a failure, \<open>submitProfile\<close> answers 422 with the
  failure's message, leaves the store as it is and issues no call at all, upstream or store.
  The schema reports a failure whenever \<open>user_id\<close> is missing, is not a string or does not
  match the identifier shape, and whenever a demographic or measurement field that is
  provided fails its check (date shape, integer, number, one of female and male).
\<close>

theorem submitProfile_invalid_input:
  "(userSchema_validate j b = Some err \<longrightarrow>
      submitProfile e j b d =
        (\<lparr>status = 422, body = Some (JObj [(''error'', JStr (message_of j err))])\<rparr>, d, []))
   \<and> ((\<forall>s. js_get (JObj b) ''user_id'' = JStr s \<longrightarrow> \<not> user_id_pattern s) \<longrightarrow>
        userSchema_validate j b \<noteq> None)
   \<and> (js_get (JObj b) ''date_of_birth_string'' \<noteq> JUndefined \<and>
        (\<forall>s. js_get (JObj b) ''date_of_birth_string'' = JStr s \<longrightarrow> \<not> date_pattern s) \<longrightarrow>
        userSchema_validate j b \<noteq> None)
   \<and> (js_get (JObj b) ''height_cm_int'' \<noteq> JUndefined \<and>
        (\<forall>r. to_number j (js_get (JObj b) ''height_cm_int'') = Some r \<longrightarrow> of_int \<lfloor>r\<rfloor> \<noteq> r) \<longrightarrow>
        userSchema_validate j b \<noteq> None)
   \<and> (js_get (JObj b) ''weight_kg_float'' \<noteq> JUndefined \<and>
        to_number j (js_get (JObj b) ''weight_kg_float'') = None \<longrightarrow>
        userSchema_validate j b \<noteq> None)
   \<and> (js_get (JObj b) ''bmi_float'' \<noteq> JUndefined \<and>
        to_number j (js_get (JObj b) ''bmi_float'') = None \<longrightarrow>
        userSchema_validate j b \<noteq> None)
   \<and> (js_get (JObj b) ''sex_string'' \<notin> {JUndefined, JStr ''female'', JStr ''male''} \<longrightarrow>
        userSchema_validate j b \<noteq> None)"
proof (intro conjI impI)
  assume "userSchema_validate j b = Some err"
  then show "submitProfile e j b d =
        (\<lparr>status = 422, body = Some (JObj [(''error'', JStr (message_of j err))])\<rparr>, d, [])"
    by (simp add: submitProfile_def res_status_json_def)
next
  assume bad: "\<forall>s. js_get (JObj b) ''user_id'' = JStr s \<longrightarrow> \<not> user_id_pattern s"
  show "userSchema_validate j b \<noteq> None"
  proof
    assume "userSchema_validate j b = None"
    from valid_user_id [OF this] bad show False by blast
  qed
next
  assume bad: "js_get (JObj b) ''date_of_birth_string'' \<noteq> JUndefined \<and>
        (\<forall>s. js_get (JObj b) ''date_of_birth_string'' = JStr s \<longrightarrow> \<not> date_pattern s)"
  show "userSchema_validate j b \<noteq> None"
  proof
    assume "userSchema_validate j b = None"
    from valid_checks(2) [OF this] bad
    have "joi_string (\<lambda>s. if date_pattern s then None else Some PatternMismatch)
            (js_get (JObj b) ''date_of_birth_string'') = None"
      by (simp add: joi_key_def del: js_get.simps)
    from joi_string_None [OF this] bad show False
      by (auto simp del: js_get.simps split: if_splits)
  qed
next
  assume bad: "js_get (JObj b) ''height_cm_int'' \<noteq> JUndefined \<and>
        (\<forall>r. to_number j (js_get (JObj b) ''height_cm_int'') = Some r \<longrightarrow> of_int \<lfloor>r\<rfloor> \<noteq> r)"
  show "userSchema_validate j b \<noteq> None"
  proof
    assume "userSchema_validate j b = None"
    from valid_checks(3) [OF this] bad show False
      by (auto simp: joi_key_def joi_number_def simp del: js_get.simps split: option.splits if_splits)
  qed
next
  assume bad: "js_get (JObj b) ''weight_kg_float'' \<noteq> JUndefined \<and>
        to_number j (js_get (JObj b) ''weight_kg_float'') = None"
  show "userSchema_validate j b \<noteq> None"
  proof
    assume "userSchema_validate j b = None"
    from valid_checks(4) [OF this] bad show False
      by (auto simp: joi_key_def joi_number_def simp del: js_get.simps split: option.splits if_splits)
  qed
next
  assume bad: "js_get (JObj b) ''bmi_float'' \<noteq> JUndefined \<and>
        to_number j (js_get (JObj b) ''bmi_float'') = None"
  show "userSchema_validate j b \<noteq> None"
  proof
    assume "userSchema_validate j b = None"
    from valid_checks(5) [OF this] bad show False
      by (auto simp: joi_key_def joi_number_def simp del: js_get.simps split: option.splits if_splits)
  qed
next
  assume bad: "js_get (JObj b) ''sex_string'' \<notin> {JUndefined, JStr ''female'', JStr ''male''}"
  show "userSchema_validate j b \<noteq> None"
  proof
    assume "userSchema_validate j b = None"
    from valid_checks(6) [OF this] bad show False
      by (auto simp: joi_key_def simp del: js_get.simps split: option.splits if_splits)
  qed
qed


theorem submitProfile_invalid_input_witness:
  "userSchema_validate demo_joi demo_bad_body = Some (Verr ''user_id'' PatternMismatch) \<and>
   js_get (JObj demo_bad_body) ''user_id'' = JStr ''u 1'' \<and> user_id_pattern ''u 1'' = False \<and>
   js_get (JObj demo_bad_body) ''date_of_birth_string'' = JStr ''1990/01/01'' \<and>
   date_pattern ''1990/01/01'' = False \<and>
   to_number demo_joi (js_get (JObj demo_bad_body) ''height_cm_int'') = Some (361 / 2) \<and>
   to_number demo_joi (js_get (JObj demo_bad_body) ''weight_kg_float'') = None \<and>
   to_number demo_joi (js_get (JObj demo_bad_body) ''bmi_float'') = None \<and>
   js_get (JObj demo_bad_body) ''sex_string'' = JStr ''other'' \<and>
   submitProfile (demo_env (Resolved 200 JNull)) demo_joi demo_bad_body demo_db =
     (\<lparr>status = 422, body = Some (JObj [(''error'', JStr ''user_id'')])\<rparr>, demo_db, [])"
  using submitProfile_invalid_input [where j = demo_joi and b = demo_bad_body
      and err = "Verr ''user_id'' PatternMismatch" and e = "demo_env (Resolved 200 JNull)"
      and d = demo_db]
  by (simp add: demo_defs userSchema_validate_def joi_key_def user_id_pattern_def id_char_def)

section \<open>Reading a profile\<close>

text \<open>
  C8. Where no date is supplied, a profile row is stored for the user and the store answers
  the lookup, \<open>getProfile\<close> returns the stored row (wrapped as \<open>user_information\<close>), leaves
  the store as it is and issues the store read only: no upstream call and no store write.
\<close>

theorem getProfile_cached:
  assumes "read_fault e = None" and "find_user u d = Some cached" and "no_date date"
  shows "getProfile e u date d =
     (\<lparr>status = 200,
       body = Some (JObj [(''data_structure'', JStr ''user_info''),
                          (''user_information'', json_of_user cached)])\<rparr>,
      d, [StoreRead])"
  using assms by (simp add: getProfile_def user_findUnique_def res_json_def)

theorem getProfile_cached_witness:
  "read_fault (demo_env (Rejected None ''unreachable'')) = None \<and>
   find_user ''u1'' demo_db = Some demo_user \<and> no_date None \<and>
   getProfile (demo_env (Rejected None ''unreachable'')) ''u1'' None demo_db =
     (\<lparr>status = 200,
       body = Some (JObj [(''data_structure'', JStr ''user_info''),
                (''user_information'',
                 JObj [(''user_id'', JStr ''u1''), (''date_of_birth'', JNull),
                       (''height_cm'', JNum 180), (''weight_kg'', JNull), (''bmi'', JNull),
                       (''sex'', JStr ''male''), (''time_zone'', JNull), (''offset'', JNull)])])\<rparr>,
      demo_db, [StoreRead])"
  using getProfile_cached [where e = "demo_env (Rejected None ''unreachable'')" and u = "''u1''"
      and d = demo_db and cached = demo_user and date = None]
  by (simp add: demo_defs find_user_def blank_row_def json_of_user_def)

section \<open>Setting the time zone\<close>

text \<open>
  C10, as amended. \<open>setTimeZone\<close> validates nothing: whatever the input, the first call
  of a run is the upstream call, and a status 422 can only be the upstream's own. Where
  upstream accepts, the upsert is issued with the supplied values, whatever they are. Where
  each of \<open>time_zone\<close> and \<open>offset\<close> is a string, \<open>null\<close> or absent and the store takes the
  write, the answer is the upstream's and the user's row holds exactly the supplied values:
  a string or \<open>null\<close> is written, an absent value leaves the column of an existing row as
  it is and is \<open>null\<close> in a row that is created.
\<close>

theorem setTimeZone_no_validation:
  "(\<exists>resp d' t. setTimeZone e u b d = (resp, d', RookCall (timezone_request u b) # t))
   \<and>
   (status (fst (setTimeZone e u b d)) = 422 \<longrightarrow>
      (\<exists>v. upstream e (timezone_request u b) = Resolved 422 v) \<or>
      (\<exists>m. upstream e (timezone_request u b) = Rejected (Some 422) m))
   \<and>
   (upstream e (timezone_request u b) = Resolved s v \<longrightarrow>
      snd (snd (setTimeZone e u b d)) = [RookCall (timezone_request u b), StoreWrite])
   \<and>
   (upstream e (timezone_request u b) = Resolved s v \<and> write_fault e = None \<and>
    \<not> is_bad (text_arg (js_get (JObj b) ''time_zone'')) \<and>
    \<not> is_bad (text_arg (js_get (JObj b) ''offset'')) \<longrightarrow>
      (\<exists>d'. setTimeZone e u b d =
               (\<lparr>status = s, body = Some v\<rparr>, d', [RookCall (timezone_request u b), StoreWrite]) \<and>
            find_user u d' =
              Some (case find_user u d of
                      Some old \<Rightarrow>
                        old\<lparr>time_zone := put (text_arg (js_get (JObj b) ''time_zone'')) (time_zone old),
                            offset := put (text_arg (js_get (JObj b) ''offset'')) (offset old)\<rparr>
                    | None \<Rightarrow>
                        (blank_row u)
                           \<lparr>time_zone := put (text_arg (js_get (JObj b) ''time_zone'')) None,
                            offset := put (text_arg (js_get (JObj b) ''offset'')) None\<rparr>)))"
proof (intro conjI impI)
  show "\<exists>resp d' t. setTimeZone e u b d = (resp, d', RookCall (timezone_request u b) # t)"
    by (auto simp: setTimeZone_def split: upstream_result.splits sum.splits)
next
  assume "status (fst (setTimeZone e u b d)) = 422"
  then show "(\<exists>v. upstream e (timezone_request u b) = Resolved 422 v) \<or>
      (\<exists>m. upstream e (timezone_request u b) = Rejected (Some 422) m)"
    by (cases "upstream e (timezone_request u b)")
       (auto simp: setTimeZone_def res_status_json_def simp del: js_get.simps
             split: sum.splits option.splits if_splits dest!: user_upsert_error status_or_500_422)
next
  assume "upstream e (timezone_request u b) = Resolved s v"
  then show "snd (snd (setTimeZone e u b d)) = [RookCall (timezone_request u b), StoreWrite]"
    by (simp add: setTimeZone_def split: sum.splits)
next
  assume a: "upstream e (timezone_request u b) = Resolved s v \<and> write_fault e = None \<and>
    \<not> is_bad (text_arg (js_get (JObj b) ''time_zone'')) \<and>
    \<not> is_bad (text_arg (js_get (JObj b) ''offset''))"
  let ?upd = "JObj [(''time_zone'', js_get (JObj b) ''time_zone''), (''offset'', js_get (JObj b) ''offset'')]"
  let ?crt = "JObj [(''user_id'', JStr u), (''time_zone'', js_get (JObj b) ''time_zone''),
                    (''offset'', js_get (JObj b) ''offset'')]"
  have uid: "js_get ?crt ''user_id'' = JStr u"
    by simp
  from a have "args_ok ?upd" and "args_ok ?crt" and "write_fault e = None"
    by (simp_all add: args_ok_timezone del: js_get.simps)
  from user_upsert_accepts [OF this(3) this(1) this(2) uid]
  obtain d' where up: "user_upsert e d (JStr u) ?upd ?crt = Inr d'"
    by blast
  have run: "setTimeZone e u b d =
      (\<lparr>status = s, body = Some v\<rparr>, d', [RookCall (timezone_request u b), StoreWrite])"
    using a up by (simp add: setTimeZone_def res_status_json_def del: js_get.simps)
  have row: "find_user u d' =
              Some (case find_user u d of
                      Some old \<Rightarrow>
                        old\<lparr>time_zone := put (text_arg (js_get (JObj b) ''time_zone'')) (time_zone old),
                            offset := put (text_arg (js_get (JObj b) ''offset'')) (offset old)\<rparr>
                    | None \<Rightarrow>
                        (blank_row u)
                           \<lparr>time_zone := put (text_arg (js_get (JObj b) ''time_zone'')) None,
                            offset := put (text_arg (js_get (JObj b) ''offset'')) None\<rparr>)"
  proof (cases "find_user u d")
    case None
    from user_upsert_created [OF up None uid] show ?thesis
      by (simp add: None apply_args_timezone blank_row_def del: js_get.simps)
  next
    case (Some old)
    from user_upsert_existing [OF up Some] show ?thesis
      by (simp add: Some apply_args_timezone del: js_get.simps)
  qed
  from run row show "\<exists>d'. setTimeZone e u b d =
               (\<lparr>status = s, body = Some v\<rparr>, d', [RookCall (timezone_request u b), StoreWrite]) \<and>
            find_user u d' =
              Some (case find_user u d of
                      Some old \<Rightarrow>
                        old\<lparr>time_zone := put (text_arg (js_get (JObj b) ''time_zone'')) (time_zone old),
                            offset := put (text_arg (js_get (JObj b) ''offset'')) (offset old)\<rparr>
                    | None \<Rightarrow>
                        (blank_row u)
                           \<lparr>time_zone := put (text_arg (js_get (JObj b) ''time_zone'')) None,
                            offset := put (text_arg (js_get (JObj b) ''offset'')) None\<rparr>)"
    by blast
qed

theorem setTimeZone_no_validation_witness:
  "upstream (demo_env (Resolved 200 JNull)) (timezone_request ''u2'' [(''time_zone'', JStr ''Mars/Olympus'')])
     = Resolved 200 JNull \<and>
   js_get (JObj [(''time_zone'', JStr ''Mars/Olympus'')]) ''offset'' = JUndefined \<and>
   find_user ''u2'' demo_db = None \<and>
   setTimeZone (demo_env (Resolved 200 JNull)) ''u2'' [(''time_zone'', JStr ''Mars/Olympus'')] demo_db =
     (\<lparr>status = 200, body = Some JNull\<rparr>,
      demo_db\<lparr>user_table := [demo_user, (blank_row ''u2'')\<lparr>time_zone := Some ''Mars/Olympus''\<rparr>]\<rparr>,
      [RookCall (Post ''/api/v1/user_id/u2/time_zone''
                   (JObj [(''time_zone'', JStr ''Mars/Olympus''), (''offset'', JUndefined)])),
       StoreWrite]) \<and>
   offset ((blank_row ''u2'')\<lparr>time_zone := Some ''Mars/Olympus''\<rparr>) = None \<and>
   setTimeZone (demo_env (Rejected (Some 422) ''Request failed with status code 422'')) ''u2'' []
     demo_db =
     (\<lparr>status = 422,
       body = Some (JObj [(''error'', JStr ''Request failed with status code 422'')])\<rparr>, demo_db,
      [RookCall (Post ''/api/v1/user_id/u2/time_zone''
                   (JObj [(''time_zone'', JUndefined), (''offset'', JUndefined)]))]) \<and>
   status
     (fst (setTimeZone (demo_env (Rejected (Some 422) ''Request failed with status code 422''))
             ''u2'' [] demo_db)) = 422"
  using setTimeZone_no_validation [where e = "demo_env (Resolved 200 JNull)" and u = "''u2''"
      and b = "[(''time_zone'', JStr ''Mars/Olympus'')]" and d = demo_db and s = 200 and v = JNull]
    setTimeZone_no_validation [where u = "''u2''" and b = "[]" and d = demo_db
      and e = "demo_env (Rejected (Some 422) ''Request failed with status code 422'')"]
  by (simp add: demo_defs setTimeZone_def timezone_request_def user_upsert_def args_ok_def
      apply_args_def blank_row_def find_user_def res_status_json_def)

text \<open>
  The claim as it was stated fails where a supplied value is malformed in type: with
  \<open>time_zone: 5\<close> and an upstream that accepts, the upsert is issued and refused by the
  store, the caller gets 500, and nothing is stored, for a user without a row as for one
  with a row.
\<close>

theorem setTimeZone_no_validation_counterexample:
  "upstream (demo_env (Resolved 200 JNull)) (timezone_request ''u2'' [(''time_zone'', JNum 5)]) =
     Resolved 200 JNull \<and>
   js_get (JObj [(''time_zone'', JNum 5)]) ''time_zone'' = JNum 5 \<and>
   find_user ''u2'' demo_db = None \<and>
   setTimeZone (demo_env (Resolved 200 JNull)) ''u2'' [(''time_zone'', JNum 5)] demo_db =
     (\<lparr>status = 500, body = Some (JObj [(''error'', JStr [])])\<rparr>, demo_db,
      [RookCall (Post ''/api/v1/user_id/u2/time_zone''
                   (JObj [(''time_zone'', JNum 5), (''offset'', JUndefined)])),
       StoreWrite]) \<and>
   find_user ''u1'' demo_db = Some demo_user \<and>
   time_zone demo_user = None \<and>
   setTimeZone (demo_env (Resolved 200 JNull)) ''u1'' [(''time_zone'', JNum 5)] demo_db =
     (\<lparr>status = 500, body = Some (JObj [(''error'', JStr [])])\<rparr>, demo_db,
      [RookCall (Post ''/api/v1/user_id/u1/time_zone''
                   (JObj [(''time_zone'', JNum 5), (''offset'', JUndefined)])),
       StoreWrite])"
  by (simp add: demo_defs setTimeZone_def timezone_request_def user_upsert_def args_ok_def
      blank_row_def find_user_def)

section \<open>The write-back of a fetched profile\<close>

text \<open>
  C9, as amended. For every stored profile row and every run of \<open>getProfile\<close>, the row is
  still there afterwards and \<open>height_cm\<close>, \<open>weight_kg\<close>, \<open>bmi\<close>, \<open>sex\<close>, \<open>time_zone\<close> and
  \<open>offset\<close> are untouched. Its \<open>date_of_birth\<close> differs afterwards only if the row is the
  requested user's, the upstream call resolved with a truthy \<open>user_information\<close>, and the
  payload's \<open>date_of_birth_string\<close> is a string or \<open>null\<close>: that value is then the stored
  one (\<open>null\<close> clears it), and the upstream payload is the answer. A run that takes the
  upstream path answers with the upstream's status and payload whenever the call resolves
  with a payload that is not \<open>null\<close> or \<open>undefined\<close> and the store takes the write.
\<close>

theorem getProfile_write_back:
  assumes row: "find_user x d = Some old"
    and run: "getProfile e u date d = (resp, d', t)"
  shows "\<exists>new. find_user x d' = Some new \<and>
     user_id new = user_id old \<and> height_cm new = height_cm old \<and>
     weight_kg new = weight_kg old \<and> bmi new = bmi old \<and> sex new = sex old \<and>
     time_zone new = time_zone old \<and> offset new = offset old \<and>
     (date_of_birth new \<noteq> date_of_birth old \<longrightarrow>
        x = u \<and>
        (\<exists>s v. upstream e (profile_request u date) = Resolved s v \<and>
           truthy (js_get v ''user_information'') \<and>
           text_arg (upstream_dob v) = Put (date_of_birth new) \<and>
           resp = \<lparr>status = s, body = Some v\<rparr>)) \<and>
     (\<forall>s v. RookCall (profile_request u date) \<in> set t \<and>
        upstream e (profile_request u date) = Resolved s v \<and> \<not> nullish v \<and>
        write_fault e = None \<and> \<not> is_bad (text_arg (upstream_dob v)) \<longrightarrow>
        resp = \<lparr>status = s, body = Some v\<rparr>)"
proof -
  have payload: "\<forall>s v. RookCall (profile_request u date) \<in> set t \<and>
        upstream e (profile_request u date) = Resolved s v \<and> \<not> nullish v \<and>
        write_fault e = None \<and> \<not> is_bad (text_arg (upstream_dob v)) \<longrightarrow>
        resp = \<lparr>status = s, body = Some v\<rparr>"
  proof (intro allI impI, elim conjE)
    fix s v
    assume c: "RookCall (profile_request u date) \<in> set t"
      and r: "upstream e (profile_request u date) = Resolved s v" "\<not> nullish v"
        "write_fault e = None" "\<not> is_bad (text_arg (upstream_dob v))"
    from getProfile_upstream_path [OF run c] run
    have "fetchProfile e u date d = (resp, d', t)" by simp
    then have "fst (fetchProfile e u date d) = resp" by simp
    with fetchProfile_success [OF r, where d = d] show "resp = \<lparr>status = s, body = Some v\<rparr>"
      by simp
  qed
  from getProfile_store [OF run] show ?thesis
  proof (elim disjE exE conjE)
    assume "d' = d"
    with row payload show ?thesis by (intro exI [of _ old]) simp
  next
    fix s v
    assume up: "upstream e (profile_request u date) = Resolved s v"
      "truthy (js_get v ''user_information'')" "resp = \<lparr>status = s, body = Some v\<rparr>"
      "user_upsert e d (JStr u) (JObj [(''date_of_birth'', upstream_dob v)])
          (JObj [(''user_id'', JStr u), (''date_of_birth'', upstream_dob v)]) = Inr d'"
    from user_upsert_existing [OF up(4) row]
    have new: "find_user x d' =
        Some (if x = u then apply_args (JObj [(''date_of_birth'', upstream_dob v)]) old else old)" .
    show ?thesis
    proof (cases "x = u")
      case False
      with new payload show ?thesis by (intro exI [of _ old]) simp
    next
      case True
      with new payload up show ?thesis
        by (intro exI [of _ "old\<lparr>date_of_birth := put (text_arg (upstream_dob v)) (date_of_birth old)\<rparr>"])
           (auto simp: apply_args_dob dest: put_changed)
    qed
  qed
qed

theorem getProfile_write_back_witness:
  "find_user ''u1'' demo_born_db = Some demo_born_user \<and>
   upstream_dob demo_dob = JStr ''1985-05-05'' \<and>
   getProfile (demo_env (Resolved 200 demo_dob)) ''u1'' (Some ''2024-06-01'') demo_born_db =
     (\<lparr>status = 200, body = Some demo_dob\<rparr>,
      demo_born_db\<lparr>user_table := [demo_born_user\<lparr>date_of_birth := Some ''1985-05-05''\<rparr>]\<rparr>,
      [StoreRead, RookCall (Get ''/v2/processed_data/user/info?user_id=u1&date=2024-06-01''),
       StoreWrite]) \<and>
   find_user ''u1'' (demo_born_db\<lparr>user_table := [demo_born_user\<lparr>date_of_birth := Some ''1985-05-05''\<rparr>]\<rparr>) =
     Some (demo_born_user\<lparr>date_of_birth := Some ''1985-05-05''\<rparr>)"
  using getProfile_write_back [where x = "''u1''" and d = demo_born_db and old = demo_born_user
      and e = "demo_env (Resolved 200 demo_dob)" and u = "''u1''" and date = "Some ''2024-06-01''"
      and resp = "\<lparr>status = 200, body = Some demo_dob\<rparr>"
      and d' = "demo_born_db\<lparr>user_table := [demo_born_user\<lparr>date_of_birth := Some ''1985-05-05''\<rparr>]\<rparr>"
      and t = "[StoreRead, RookCall (Get ''/v2/processed_data/user/info?user_id=u1&date=2024-06-01''),
       StoreWrite]"]
  by (simp add: demo_defs getProfile_def fetchProfile_def user_findUnique_def profile_request_def
      upstream_dob_def js_get_opt_def user_upsert_def args_ok_def apply_args_def blank_row_def
      find_user_def res_status_json_def)

text \<open>
  The claim as it was stated fails in two places. Where the upstream payload carries
  \<open>date_of_birth_string: null\<close>, no date of birth is there and the stored one is cleared.
  Where the payload has a \<open>user_information\<close> with no date of birth at all and the user has
  no row, the write-back still runs and creates a row.
\<close>

theorem getProfile_write_back_counterexample:
  "find_user ''u1'' demo_born_db = Some demo_born_user \<and>
   date_of_birth demo_born_user = Some ''1990-01-01'' \<and>
   upstream_dob demo_null_dob = JNull \<and>
   getProfile (demo_env (Resolved 200 demo_null_dob)) ''u1'' (Some ''2024-06-01'') demo_born_db =
     (\<lparr>status = 200, body = Some demo_null_dob\<rparr>,
      demo_born_db\<lparr>user_table := [demo_born_user\<lparr>date_of_birth := None\<rparr>]\<rparr>,
      [StoreRead, RookCall (Get ''/v2/processed_data/user/info?user_id=u1&date=2024-06-01''),
       StoreWrite]) \<and>
   find_user ''u1'' (demo_born_db\<lparr>user_table := [demo_born_user\<lparr>date_of_birth := None\<rparr>]\<rparr>) =
     Some (demo_born_user\<lparr>date_of_birth := None\<rparr>) \<and>
   upstream_dob demo_no_dob = JUndefined \<and>
   find_user ''u1'' empty_db = None \<and>
   getProfile (demo_env (Resolved 200 demo_no_dob)) ''u1'' None empty_db =
     (\<lparr>status = 200, body = Some demo_no_dob\<rparr>,
      empty_db\<lparr>user_table := [blank_row ''u1'']\<rparr>,
      [StoreRead, RookCall (Get ''/v2/processed_data/user/info?user_id=u1&date=undefined''),
       StoreWrite])"
  by (simp add: demo_defs getProfile_def fetchProfile_def user_findUnique_def profile_request_def
      upstream_dob_def js_get_opt_def user_upsert_def args_ok_def apply_args_def blank_row_def
      find_user_def res_status_json_def)

section \<open>The no-content signal\<close>

text \<open>
  C5. The claim: whenever upstream answers a snapshot or profile read with status 204, the
  outcome is the explicit no-content outcome (204, no body), not an error, and no row is
  cached. \<open>handleNoContent\<close> gives that outcome for a thrown error that carries 204
  (\<open>getSnapshot_rejected_204\<close>), but the client resolves a 204 answer, and the snapshot
  routes then send the empty body with \<open>res.json\<close>: the caller gets status 200 with the body
  \<open>""\<close>, an ordinary success, where \<open>getProfile\<close> passes the 204 on. Evaluated on a miss
  for \<open>/health/physical/summary\<close>, and on \<open>/users/u1/info\<close>:
\<close>

theorem getSnapshot_resolved_204:
  "axios_default 204 (JStr []) [] = Resolved 204 (JStr []) \<and>
   getSnapshot (demo_env (axios_default 204 (JStr []) [])) PhysicalSummary (Some ''u1'')
     (Some ''2024-06-01'') empty_db =
     (\<lparr>status = 200, body = Some (JStr [])\<rparr>, empty_db,
      [StoreRead,
       RookCall (Get ''/v2/processed_data/physical_health/summary?user_id=u1&date=2024-06-01'')]) \<and>
   getProfile (demo_env (axios_default 204 (JStr []) [])) ''u1'' (Some ''2024-06-01'') empty_db =
     (\<lparr>status = 204, body = Some (JStr [])\<rparr>, empty_db,
      [StoreRead, RookCall (Get ''/v2/processed_data/user/info?user_id=u1&date=2024-06-01'')])"
  by (simp add: demo_defs axios_default_def getSnapshot_def healthData_findFirst_def
      snapshot_request_def res_json_def getProfile_def fetchProfile_def user_findUnique_def
      find_user_def profile_request_def res_status_json_def)

section \<open>Status and body pass-through\<close>

text \<open>
  C6, as amended. Where the upstream call resolves with status \<open>s\<close> and body \<open>v\<close> and the
  store takes the write of the run: \<open>submitProfile\<close> (valid input) answers \<open>s\<close> with \<open>v\<close>;
  \<open>getProfile\<close> on the upstream path answers \<open>s\<close> with \<open>v\<close> when \<open>v\<close> is not \<open>null\<close> or
  \<open>undefined\<close>; a \<open>getSnapshot\<close> miss answers with \<open>v\<close>, under the upstream's status when
  that is 200.
\<close>

theorem passthrough_when_store_succeeds:
  "(userSchema_validate j b = None \<and>
    upstream e (Post ''/api/v2/user-information'' (JObj b)) = Resolved s v \<and>
    write_fault e = None \<and> args_ok (JObj (profile_args b)) \<longrightarrow>
      fst (submitProfile e j b d) = \<lparr>status = s, body = Some v\<rparr>)
   \<and>
   (read_fault e = None \<and> (find_user u d = None \<or> \<not> no_date date) \<and>
    upstream e (profile_request u date) = Resolved s v \<and> \<not> nullish v \<and>
    write_fault e = None \<and> \<not> is_bad (text_arg (upstream_dob v)) \<longrightarrow>
      fst (getProfile e u date d) = \<lparr>status = s, body = Some v\<rparr>)
   \<and>
   (read_fault e = None \<and>
    find (snapshot_where (Some u) (data_type_tag sh) (Some dd)) (healthData d) = None \<and>
    upstream e (snapshot_request sh (Some u) (Some dd)) = Resolved s v \<and>
    write_fault e = None \<longrightarrow>
      body (fst (getSnapshot e sh (Some u) (Some dd) d)) = Some v \<and>
      (s = 200 \<longrightarrow> status (fst (getSnapshot e sh (Some u) (Some dd) d)) = s))"
proof (intro conjI impI)
  assume a: "userSchema_validate j b = None \<and>
    upstream e (Post ''/api/v2/user-information'' (JObj b)) = Resolved s v \<and>
    write_fault e = None \<and> args_ok (JObj (profile_args b))"
  then obtain x where x: "js_get (JObj b) ''user_id'' = JStr x"
    using valid_user_id by blast
  have uid: "js_get (JObj ((''user_id'', JStr x) # profile_args b)) ''user_id'' = JStr x"
    by simp
  from a have "write_fault e = None" "args_ok (JObj (profile_args b))"
      "args_ok (JObj ((''user_id'', JStr x) # profile_args b))"
    by (simp_all add: args_ok_create)
  from user_upsert_accepts [OF this uid]
  obtain d' where "user_upsert e d (JStr x) (JObj (profile_args b))
      (JObj ((''user_id'', JStr x) # profile_args b)) = Inr d'"
    by blast
  with a x show "fst (submitProfile e j b d) = \<lparr>status = s, body = Some v\<rparr>"
    by (simp add: submitProfile_valid res_status_json_def del: js_get.simps)
next
  assume a: "read_fault e = None \<and> (find_user u d = None \<or> \<not> no_date date) \<and>
    upstream e (profile_request u date) = Resolved s v \<and> \<not> nullish v \<and>
    write_fault e = None \<and> \<not> is_bad (text_arg (upstream_dob v))"
  then have "getProfile e u date d = fetchProfile e u date d"
    by (auto simp: getProfile_def user_findUnique_def split: option.splits)
  with a show "fst (getProfile e u date d) = \<lparr>status = s, body = Some v\<rparr>"
    by (simp add: fetchProfile_success)
next
  assume a: "read_fault e = None \<and>
    find (snapshot_where (Some u) (data_type_tag sh) (Some dd)) (healthData d) = None \<and>
    upstream e (snapshot_request sh (Some u) (Some dd)) = Resolved s v \<and>
    write_fault e = None"
  then show "body (fst (getSnapshot e sh (Some u) (Some dd) d)) = Some v"
    by (simp add: getSnapshot_def healthData_findFirst_def healthData_create_def res_json_def)
  from a show "status (fst (getSnapshot e sh (Some u) (Some dd) d)) = s" if "s = 200"
    using that
    by (simp add: getSnapshot_def healthData_findFirst_def healthData_create_def res_json_def)
qed

theorem passthrough_when_store_succeeds_witness:
  "userSchema_validate demo_joi demo_body = None \<and>
   args_ok (JObj (profile_args demo_body)) \<and>
   fst (submitProfile (demo_env (Resolved 201 demo_score)) demo_joi demo_body demo_db) =
     \<lparr>status = 201, body = Some demo_score\<rparr> \<and>
   no_date (Some ''2024-06-01'') = False \<and>
   fst (getProfile (demo_env (Resolved 201 demo_score)) ''u1'' (Some ''2024-06-01'') demo_db) =
     \<lparr>status = 201, body = Some demo_score\<rparr> \<and>
   fst (getSnapshot (demo_env (Resolved 200 demo_score)) SleepSummary (Some ''u1'')
          (Some ''2024-06-01'') empty_db) =
     \<lparr>status = 200, body = Some demo_score\<rparr>"
  using passthrough_when_store_succeeds [where j = demo_joi and b = demo_body
      and e = "demo_env (Resolved 201 demo_score)" and s = 201 and v = demo_score and d = demo_db
      and u = "''u1''" and date = "Some ''2024-06-01''" and sh = SleepSummary
      and dd = "''2024-06-01''"]
    passthrough_when_store_succeeds [where j = demo_joi and b = demo_body
      and e = "demo_env (Resolved 200 demo_score)" and s = 200 and v = demo_score and d = empty_db
      and u = "''u1''" and date = "Some ''2024-06-01''" and sh = SleepSummary
      and dd = "''2024-06-01''"]
  by (simp add: demo_defs submitProfile_def userSchema_validate_def joi_key_def joi_number_def
      user_id_pattern_def id_char_def schema_keys_def profile_args_def user_upsert_def args_ok_def
      apply_args_def blank_row_def find_user_def res_status_json_def
      getProfile_def fetchProfile_def user_findUnique_def profile_request_def
      getSnapshot_def healthData_findFirst_def healthData_create_def snapshot_where_def
      snapshot_request_def res_json_def)

text \<open>
  The claim as it was stated fails where the store write fails after the upstream accepted:
  upstream answered 200, the caller gets 500.
\<close>

theorem passthrough_counterexample:
  "userSchema_validate demo_joi demo_body = None \<and>
   upstream (demo_env_write_down (Resolved 200 demo_score))
     (Post ''/api/v2/user-information'' (JObj demo_body)) = Resolved 200 demo_score \<and>
   submitProfile (demo_env_write_down (Resolved 200 demo_score)) demo_joi demo_body demo_db =
     (\<lparr>status = 500, body = Some (JObj [(''error'', JStr ''connection lost'')])\<rparr>, demo_db,
      [RookCall (Post ''/api/v2/user-information'' (JObj demo_body)), StoreWrite])"
  by (simp add: demo_defs submitProfile_def userSchema_validate_def joi_key_def joi_number_def
      user_id_pattern_def id_char_def schema_keys_def profile_args_def user_upsert_def args_ok_def)

end
